theory Spec2Isabelle
  imports Main "HOL-Library.Char_ord" "HOL-Library.List_Lexorder"
begin

section \<open>JavaScript values and errors\<close>

text \<open>
  The values the query compiler handles. A Number is \<open>JNum n\<close> when it is a safe
  integer (of absolute value at most \<open>2^53 - 1\<close>: these are exact and render in decimal
  digits), one of the three special values, or \<open>JFloat s\<close>: any other finite Number, one
  with a fractional part or beyond the safe integers, named by its \<open>ToString\<close> rendering
  \<open>s\<close>. Which Number a decimal literal denotes is floating-point arithmetic and stays a
  parameter (\<open>pf\<close>, for \<open>parseFloat\<close>) of the functions below.
  An object is the list of its own enumerable properties in insertion order; the engine's
  rule that index-like keys come first is met by the objects built here, where index keys
  are the first ones inserted and a field name never is an index.
\<close>

datatype jsval =
    JUndefined
  | JNull
  | JBool bool
  | JNum int
  | JNaN
  | JInfinity
  | JNegInfinity
  | JFloat string
  | JStr string
  | JArr "jsval list"
  | JObj "(string \<times> jsval) list"

text \<open>
  What a call can throw: \<open>TypeError\<close> (a property read on undefined, a spread of a value
  that is not iterable), the explicit \<open>Error('Unsuported query selection')\<close>, and the
  \<open>RangeError\<close> of an exhausted call stack. \<open>NotModelled\<close> is thrown by no call: it
  ends an evaluation that meets an integer beyond the safe range, where the program goes
  on with a rounded Number that the integers of this model do not give.
\<close>

datatype error = TypeError | UnsupportedSelection | RangeError | NotModelled

type_synonym jsobj = "(string \<times> jsval) list"

fun obj_set :: "(string \<times> 'v) list \<Rightarrow> string \<Rightarrow> 'v \<Rightarrow> (string \<times> 'v) list" where
  "obj_set [] k v = [(k, v)]"
| "obj_set ((k', v') # kvs) k v =
     (if k' = k then (k, v) # kvs else (k', v') # obj_set kvs k v)"

text \<open>\<open>{...a, ...b}\<close>: the properties of \<open>b\<close> are assigned onto a copy of \<open>a\<close>, in order.\<close>

definition obj_spread :: "(string \<times> 'v) list \<Rightarrow> (string \<times> 'v) list \<Rightarrow> (string \<times> 'v) list" where
  "obj_spread a b = foldl (\<lambda>acc (k, v). obj_set acc k v) a b"

definition obj_get :: "(string \<times> 'v) list \<Rightarrow> string \<Rightarrow> 'v option" where
  "obj_get kvs k = map_of kvs k"

text \<open>\<open>Array.prototype.reduce\<close> with a callback that may throw: the first exception ends it.\<close>

fun reduce_err :: "('a \<Rightarrow> 'b \<Rightarrow> error + 'a) \<Rightarrow> 'b list \<Rightarrow> 'a \<Rightarrow> error + 'a" where
  "reduce_err f [] acc = Inr acc"
| "reduce_err f (x # xs) acc =
     (case f acc x of Inl e \<Rightarrow> Inl e | Inr acc' \<Rightarrow> reduce_err f xs acc')"

text \<open>\<open>Array.prototype.map\<close> with a callback that may throw; the callback gets element and index.\<close>

fun map_err :: "('b \<Rightarrow> error + 'a) \<Rightarrow> 'b list \<Rightarrow> error + 'a list" where
  "map_err f [] = Inr []"
| "map_err f (x # xs) =
     (case f x of Inl e \<Rightarrow> Inl e
      | Inr y \<Rightarrow> (case map_err f xs of Inl e \<Rightarrow> Inl e | Inr ys \<Rightarrow> Inr (y # ys)))"

subsection \<open>Rendering and reading numbers\<close>

fun digit_char :: "nat \<Rightarrow> char" where
  "digit_char n = char_of (48 + n mod 10)"

fun digits_of_nat :: "nat \<Rightarrow> string" where
  "digits_of_nat n = (if n < 10 then [digit_char n] else digits_of_nat (n div 10) @ [digit_char n])"

declare digits_of_nat.simps [simp del]

definition string_of_int :: "int \<Rightarrow> string" where
  "string_of_int i = (if i < 0 then CHR ''-'' # digits_of_nat (nat (- i)) else digits_of_nat (nat i))"

fun join_comma :: "string list \<Rightarrow> string" where
  "join_comma [] = []"
| "join_comma [s] = s"
| "join_comma (s # t # ss) = s @ '','' @ join_comma (t # ss)"

definition safe_integer :: "int \<Rightarrow> bool" where
  "safe_integer n = (- 9007199254740991 \<le> n \<and> n \<le> 9007199254740991)"

text \<open>
  \<open>ToString\<close>; inside \<open>Array.prototype.join\<close> null and undefined render as the empty
  string. An integer beyond the safe range has no rendering here (\<open>None\<close>): the program
  renders the Number it was rounded to, from \<open>10^21\<close> on in exponent form.
\<close>

fun js_toString :: "jsval \<Rightarrow> string option" where
  "js_toString JUndefined = Some ''undefined''"
| "js_toString JNull = Some ''null''"
| "js_toString (JBool b) = Some (if b then ''true'' else ''false'')"
| "js_toString (JNum n) = (if safe_integer n then Some (string_of_int n) else None)"
| "js_toString JNaN = Some ''NaN''"
| "js_toString JInfinity = Some ''Infinity''"
| "js_toString JNegInfinity = Some ''-Infinity''"
| "js_toString (JFloat s) = Some s"
| "js_toString (JStr s) = Some s"
| "js_toString (JArr xs) =
     map_option join_comma
       (those (map (\<lambda>x. if x = JUndefined \<or> x = JNull then Some [] else js_toString x) xs))"
| "js_toString (JObj kvs) = Some ''[object Object]''"

definition is_digit :: "char \<Rightarrow> bool" where
  "is_digit c = (48 \<le> (of_char c :: nat) \<and> (of_char c :: nat) \<le> 57)"

definition is_space :: "char \<Rightarrow> bool" where
  "is_space c = ((of_char c :: nat) \<in> {9, 10, 11, 12, 13, 32})"

definition int_of_digits :: "string \<Rightarrow> int" where
  "int_of_digits ds = foldl (\<lambda>acc c. 10 * acc + (int (of_char c) - 48)) 0 ds"

text \<open>
  The outcome of \<open>parseInt\<close>: NaN, a safe integer, or \<open>Unsafe\<close> where the digits denote an
  integer beyond the safe range, which the program rounds to a Number.
\<close>

datatype parsed = NotANumber | Parsed int | Unsafe

text \<open>
  \<open>parseInt(s, 10)\<close>: leading white space is skipped, one sign is read, then the longest
  run of decimal digits; with no digit the result is NaN.
\<close>

definition parseInt_str :: "string \<Rightarrow> parsed" where
  "parseInt_str s =
     (let t = dropWhile is_space s;
          neg = (case t of c # _ \<Rightarrow> c = CHR ''-'' | [] \<Rightarrow> False);
          u = (case t of c # r \<Rightarrow> if c = CHR ''-'' \<or> c = CHR ''+'' then r else t | [] \<Rightarrow> []);
          ds = takeWhile is_digit u
      in if ds = [] then NotANumber
         else if \<not> safe_integer (int_of_digits ds) then Unsafe
         else Parsed (if neg then - int_of_digits ds else int_of_digits ds))"

text \<open>\<open>parseInt(v, 10)\<close> on any value: the value is rendered with \<open>ToString\<close> first.\<close>

definition parseInt :: "jsval \<Rightarrow> parsed" where
  "parseInt v = (case js_toString v of None \<Rightarrow> Unsafe | Some s \<Rightarrow> parseInt_str s)"

text \<open>JavaScript truthiness.\<close>

fun truthy :: "jsval \<Rightarrow> bool" where
  "truthy JUndefined = False"
| "truthy JNull = False"
| "truthy (JBool b) = b"
| "truthy (JNum n) = (n \<noteq> 0)"
| "truthy JNaN = False"
| "truthy (JStr s) = (s \<noteq> [])"
| "truthy _ = True"

section \<open>The request: selection tree, fragments, variables\<close>

text \<open>
  Value literals of the query document, as the parser delivers them: numbers and enum
  names are still text, a variable is a reference by name.
\<close>

datatype vnode =
    Variable string
  | IntValue string
  | FloatValue string
  | StringValue string
  | BooleanValue bool
  | NullValue
  | EnumValue string
  | ListValue "vnode list"
  | ObjectValue "(string \<times> vnode) list"

datatype kind =
  KVariable | KInt | KFloat | KString | KBoolean | KNull | KEnum | KList | KObject

fun kind_of :: "vnode \<Rightarrow> kind" where
  "kind_of (Variable _) = KVariable"
| "kind_of (IntValue _) = KInt"
| "kind_of (FloatValue _) = KFloat"
| "kind_of (StringValue _) = KString"
| "kind_of (BooleanValue _) = KBoolean"
| "kind_of NullValue = KNull"
| "kind_of (EnumValue _) = KEnum"
| "kind_of (ListValue _) = KList"
| "kind_of (ObjectValue _) = KObject"

text \<open>The \<open>value\<close> property of a literal node; variable, null, list and object nodes have none.\<close>

fun node_value :: "vnode \<Rightarrow> jsval" where
  "node_value (IntValue s) = JStr s"
| "node_value (FloatValue s) = JStr s"
| "node_value (StringValue s) = JStr s"
| "node_value (BooleanValue b) = JBool b"
| "node_value (EnumValue s) = JStr s"
| "node_value _ = JUndefined"

datatype argument = Argument (arg_name: string) (arg_value: vnode)

text \<open>
  Selections. A field has a name, arguments and, unless it is a leaf, a selection set; an
  inline fragment has a selection set and no \<open>name\<close> property; a spread names a fragment.
  \<open>FragmentDefinition\<close> is what \<open>info.fragments\<close> holds. \<open>OtherNode\<close> stands for a node of
  any other kind, with or without a name.
\<close>

datatype node =
    Field string "argument list" "node list option"
  | InlineFragment "node list"
  | FragmentSpread string
  | FragmentDefinition string "node list"
  | OtherNode "string option"

fun selectionSet :: "node \<Rightarrow> node list option" where
  "selectionSet (Field _ _ s) = s"
| "selectionSet (InlineFragment s) = Some s"
| "selectionSet (FragmentSpread _) = None"
| "selectionSet (FragmentDefinition _ s) = Some s"
| "selectionSet (OtherNode _) = None"

text \<open>\<open>name.value\<close> of a node, \<open>None\<close> where the node has no \<open>name\<close>.\<close>

fun node_name :: "node \<Rightarrow> string option" where
  "node_name (Field n _ _) = Some n"
| "node_name (InlineFragment _) = None"
| "node_name (FragmentSpread n) = Some n"
| "node_name (FragmentDefinition n _) = Some n"
| "node_name (OtherNode n) = n"

record info =
  fieldNodes :: "node list"
  fragments :: "(string \<times> node) list"
  variableValues :: "(string \<times> jsval) list"

section \<open>parseValue\<close>

text \<open>
  \<open>parseValue(info, {kind, name, value, values})\<close>. The function is also handed to
  \<open>Array.prototype.map\<close>, which calls it with the element and its index; so either
  parameter can be bound to a request context, a literal node or a number. Destructuring
  a number gives undefined for every property.
\<close>

datatype js_arg = ArgInfo info | ArgNode vnode | ArgIndex nat

fun arg_kind :: "js_arg \<Rightarrow> kind option" where
  "arg_kind (ArgNode v) = Some (kind_of v)"
| "arg_kind _ = None"

fun arg_prop_value :: "js_arg \<Rightarrow> jsval" where
  "arg_prop_value (ArgNode v) = node_value v"
| "arg_prop_value _ = JUndefined"

fun arg_prop_values :: "js_arg \<Rightarrow> vnode list" where
  "arg_prop_values (ArgNode (ListValue vs)) = vs"
| "arg_prop_values _ = []"

fun arg_prop_name :: "js_arg \<Rightarrow> string" where
  "arg_prop_name (ArgNode (Variable n)) = n"
| "arg_prop_name _ = []"

function parseValue :: "(string \<Rightarrow> jsval) \<Rightarrow> js_arg \<Rightarrow> js_arg \<Rightarrow> error + jsval" where
  "parseValue pf a1 a2 =
     (case arg_kind a2 of
        Some KVariable \<Rightarrow>
          (case a1 of
             ArgInfo i \<Rightarrow>
               Inr (case obj_get (variableValues i) (arg_prop_name a2) of
                      None \<Rightarrow> JUndefined | Some v \<Rightarrow> v)
           | _ \<Rightarrow> Inl TypeError)
      | Some KInt \<Rightarrow>
          (case parseInt (arg_prop_value a2) of
             NotANumber \<Rightarrow> Inr JNaN
           | Parsed n \<Rightarrow> Inr (JNum n)
           | Unsafe \<Rightarrow> Inl NotModelled)
      | Some KFloat \<Rightarrow>
          (case js_toString (arg_prop_value a2) of
             None \<Rightarrow> Inl NotModelled
           | Some s \<Rightarrow> Inr (pf s))
      | Some KString \<Rightarrow> Inr (arg_prop_value a2)
      | Some KBoolean \<Rightarrow> Inr (JBool (truthy (arg_prop_value a2)))
      | Some KNull \<Rightarrow> Inr JNull
      | Some KList \<Rightarrow>
          (case map_err (\<lambda>(element, index). parseValue pf (ArgNode element) (ArgIndex index))
                  (zip (arg_prop_values a2) [0 ..< length (arg_prop_values a2)]) of
             Inl e \<Rightarrow> Inl e
           | Inr xs \<Rightarrow> Inr (JArr xs))
      | _ \<Rightarrow> Inr (arg_prop_value a2))"
  by pat_completeness auto
termination
  by (relation "measure (\<lambda>(pf, a1, a2). case a2 of ArgNode _ \<Rightarrow> 1 | _ \<Rightarrow> 0)")
     (auto elim: arg_kind.elims)

declare parseValue.simps [simp del]

section \<open>getFilterObject\<close>

definition names :: "string list" where
  "names = [''eq'', ''gt'', ''gte'', ''lt'', ''lte'', ''ne'', ''in'', ''nin'']"

text \<open>The second parameter: omitted, an array of nodes, or one node.\<close>

datatype field_nodes = Absent | Nodes "node list" | OneNode node

definition to_nodes :: "info \<Rightarrow> field_nodes \<Rightarrow> node list" where
  "to_nodes i fn = (case fn of Absent \<Rightarrow> fieldNodes i | Nodes ns \<Rightarrow> ns | OneNode n \<Rightarrow> [n])"

definition selections_of :: "node list \<Rightarrow> node list" where
  "selections_of nodes =
     foldl (\<lambda>selections source.
              case selectionSet source of Some s \<Rightarrow> selections @ s | None \<Rightarrow> selections)
       [] nodes"

text \<open>\<open>(parentName ? `${parentName}.` : '') + name.value\<close>; the empty string is falsy.\<close>

definition prefix_of :: "string option \<Rightarrow> string \<Rightarrow> string" where
  "prefix_of parentName n =
     (case parentName of None \<Rightarrow> [] | Some p \<Rightarrow> if p = [] then [] else p @ ''.'') @ n"

definition filters_of :: "(string \<Rightarrow> jsval) \<Rightarrow> info \<Rightarrow> argument list \<Rightarrow> error + jsval list" where
  "filters_of pf i args =
     map_err (\<lambda>it. case parseValue pf (ArgInfo i) (ArgNode (arg_value it)) of
                      Inl e \<Rightarrow> Inl e
                    | Inr v \<Rightarrow> Inr (JObj [(''$'' @ arg_name it, v)]))
       (filter (\<lambda>it. arg_name it \<in> set names) args)"

text \<open>\<open>(args.find(it => it.name.value === 'op') || {value: {value: 'and'}}).value.value\<close>\<close>

definition op_of :: "argument list \<Rightarrow> jsval" where
  "op_of args =
     (case find (\<lambda>it. arg_name it = ''op'') args of
        None \<Rightarrow> JStr ''and''
      | Some a \<Rightarrow> node_value (arg_value a))"

definition filter_config :: "string \<Rightarrow> jsval \<Rightarrow> jsval list \<Rightarrow> error + jsobj" where
  "filter_config prefix op filters =
     (if length filters > 0
      then (if length filters > 1
            then (case js_toString op of
                    None \<Rightarrow> Inl NotModelled
                  | Some opText \<Rightarrow> Inr [(prefix, JObj [(''$'' @ opText, JArr filters)])])
            else Inr [(prefix, filters ! 0)])
      else Inr [])"

text \<open>
  The callback of the reduce over the selections; \<open>rec\<close> is the recursive call
  \<open>getFilterObject(info, _, _)\<close>. A spread whose fragment is unknown passes undefined as
  the second argument, which the callee replaces by \<open>info.fieldNodes\<close>.
\<close>

definition filter_step ::
  "(string \<Rightarrow> jsval) \<Rightarrow> info \<Rightarrow> (field_nodes \<Rightarrow> string option \<Rightarrow> error + jsobj) \<Rightarrow>
   string option \<Rightarrow> jsobj \<Rightarrow> node \<Rightarrow> error + jsobj" where
  "filter_step pf i rec parentName list ast =
     (case node_name ast of
        None \<Rightarrow> Inl TypeError
      | Some n \<Rightarrow>
          (let prefix = prefix_of parentName n in
           case ast of
             Field _ args _ \<Rightarrow>
               (case filters_of pf i args of
                  Inl e \<Rightarrow> Inl e
                | Inr filters \<Rightarrow>
                    (case filter_config prefix (op_of args) filters of
                       Inl e \<Rightarrow> Inl e
                     | Inr config \<Rightarrow>
                         (case rec (OneNode ast) (Some prefix) of
                            Inl e \<Rightarrow> Inl e
                          | Inr sub \<Rightarrow> Inr (obj_spread (obj_spread list sub) config))))
           | InlineFragment _ \<Rightarrow>
               (case rec (OneNode ast) (Some prefix) of
                  Inl e \<Rightarrow> Inl e
                | Inr sub \<Rightarrow> Inr (obj_spread list sub))
           | FragmentSpread _ \<Rightarrow>
               (case rec (case obj_get (fragments i) n of
                            None \<Rightarrow> Absent | Some f \<Rightarrow> OneNode f) (Some prefix) of
                  Inl e \<Rightarrow> Inl e
                | Inr sub \<Rightarrow> Inr (obj_spread list sub))
           | _ \<Rightarrow> Inl UnsupportedSelection))"

definition getFilterObject_body ::
  "(string \<Rightarrow> jsval) \<Rightarrow> (field_nodes \<Rightarrow> string option \<Rightarrow> error + jsobj) \<Rightarrow>
   info option \<Rightarrow> field_nodes \<Rightarrow> string option \<Rightarrow> error + jsobj" where
  "getFilterObject_body pf rec info fn parentName =
     (case info of
        None \<Rightarrow> Inr []
      | Some i \<Rightarrow>
          reduce_err (filter_step pf i rec parentName) (selections_of (to_nodes i fn)) [])"

text \<open>
  The function itself. The first argument is the number of nested calls the call stack
  still takes below this one; a call beyond it raises \<open>RangeError\<close>, as the engine does.
\<close>

primrec getFilterObject ::
  "nat \<Rightarrow> (string \<Rightarrow> jsval) \<Rightarrow> info option \<Rightarrow> field_nodes \<Rightarrow> string option \<Rightarrow> error + jsobj" where
  "getFilterObject 0 pf info fn parentName =
     getFilterObject_body pf (\<lambda>_ _. Inl RangeError) info fn parentName"
| "getFilterObject (Suc d) pf info fn parentName =
     getFilterObject_body pf (getFilterObject d pf info) info fn parentName"

section \<open>getSortObject\<close>

text \<open>
  The reduce of \<open>getSortObject\<close> spreads values into array literals that are not always
  arrays: its own result (an object) and, after a field without \<open>sort\<close>, its accumulator
  (an object too). ECMAScript raises a TypeError for the spread of a value that is not
  iterable (\<open>Strict\<close>). A build transpiled to ES5 replaces the spread by a helper that
  falls back to \<open>Array.from\<close>, which reads an object as array-like through its \<open>length\<close>
  property (\<open>Loose\<close>). Both readings are modelled.
\<close>

datatype spread_mode = Strict | Loose

text \<open>The \<open>order\<close> of a candidate: a parsed integer, NaN, or Infinity when no \<open>sortOrder\<close> is given.\<close>

datatype priority = Priority int | PriorityNaN | Unordered

text \<open>
  What the accumulator holds: the candidates \<open>{name, value, order}\<close>, the numbers that
  arrive from the result object of a nested call, and undefined.
\<close>

datatype sitem = SEntry string int priority | SNum int | SUndef

datatype sort_acc = AccArr "sitem list" | AccObj "(string \<times> sitem) list"

type_synonym sortobj = "(string \<times> int) list"

text \<open>The own enumerable properties, for a spread into an object literal.\<close>

definition acc_props :: "sort_acc \<Rightarrow> (string \<times> sitem) list" where
  "acc_props acc =
     (case acc of
        AccArr xs \<Rightarrow> zip (map digits_of_nat [0 ..< length xs]) xs
      | AccObj kvs \<Rightarrow> kvs)"

text \<open>
  \<open>Array.from\<close> on an object: \<open>ToLength\<close> of its \<open>length\<close> property (0 unless that is a
  positive number), then the properties named by the indices below it.
\<close>

definition array_from :: "(string \<times> sitem) list \<Rightarrow> error + sitem list" where
  "array_from obj =
     (let len = (case obj_get obj ''length'' of Some (SNum n) \<Rightarrow> n | _ \<Rightarrow> 0)
      in if len > 4294967295 then Inl RangeError
         else Inr (map (\<lambda>k. case obj_get obj (digits_of_nat k) of
                              Some v \<Rightarrow> v | None \<Rightarrow> SUndef) [0 ..< nat len]))"

definition spread_object :: "spread_mode \<Rightarrow> (string \<times> sitem) list \<Rightarrow> error + sitem list" where
  "spread_object mode obj = (case mode of Strict \<Rightarrow> Inl TypeError | Loose \<Rightarrow> array_from obj)"

definition spread_acc :: "spread_mode \<Rightarrow> sort_acc \<Rightarrow> error + sitem list" where
  "spread_acc mode acc =
     (case acc of AccArr xs \<Rightarrow> Inr xs | AccObj kvs \<Rightarrow> spread_object mode kvs)"

definition result_props :: "sortobj \<Rightarrow> (string \<times> sitem) list" where
  "result_props r = map (\<lambda>(k, v). (k, SNum v)) r"

text \<open>\<open>parseInt(parseValue(info, sortArg.value), 10) || 1\<close>\<close>

definition sort_value :: "(string \<Rightarrow> jsval) \<Rightarrow> info \<Rightarrow> argument \<Rightarrow> error + int" where
  "sort_value pf i sortArg =
     (case parseValue pf (ArgInfo i) (ArgNode (arg_value sortArg)) of
        Inl e \<Rightarrow> Inl e
      | Inr v \<Rightarrow>
          (case parseInt v of
             NotANumber \<Rightarrow> Inr 1
           | Parsed n \<Rightarrow> Inr (if n = 0 then 1 else n)
           | Unsafe \<Rightarrow> Inl NotModelled))"

text \<open>\<open>orderArg ? parseInt(orderArg.value.value, 10) : Infinity\<close>\<close>

definition sort_order :: "argument option \<Rightarrow> error + priority" where
  "sort_order orderArg =
     (case orderArg of
        None \<Rightarrow> Inr Unordered
      | Some a \<Rightarrow>
          (case parseInt (node_value (arg_value a)) of
             NotANumber \<Rightarrow> Inr PriorityNaN
           | Parsed n \<Rightarrow> Inr (Priority n)
           | Unsafe \<Rightarrow> Inl NotModelled))"

definition sort_step ::
  "spread_mode \<Rightarrow> (string \<Rightarrow> jsval) \<Rightarrow> info \<Rightarrow>
   (field_nodes \<Rightarrow> string option \<Rightarrow> error + sortobj) \<Rightarrow>
   string option \<Rightarrow> sort_acc \<Rightarrow> node \<Rightarrow> error + sort_acc" where
  "sort_step mode pf i rec parentName list ast =
     (case node_name ast of
        None \<Rightarrow> Inl TypeError
      | Some n \<Rightarrow>
          (let prefix = prefix_of parentName n in
           case ast of
             Field _ args _ \<Rightarrow>
               (case find (\<lambda>it. arg_name it = ''sort'') args of
                  None \<Rightarrow>
                    (case rec (OneNode ast) None of
                       Inl e \<Rightarrow> Inl e
                     | Inr sub \<Rightarrow> Inr (AccObj (obj_spread (acc_props list) (result_props sub))))
                | Some sortArg \<Rightarrow>
                    (case spread_acc mode list of
                       Inl e \<Rightarrow> Inl e
                     | Inr xs \<Rightarrow>
                         (case rec (OneNode ast) (Some prefix) of
                            Inl e \<Rightarrow> Inl e
                          | Inr sub \<Rightarrow>
                              (case spread_object mode (result_props sub) of
                                 Inl e \<Rightarrow> Inl e
                               | Inr ys \<Rightarrow>
                                   (case sort_value pf i sortArg of
                                      Inl e \<Rightarrow> Inl e
                                    | Inr v \<Rightarrow>
                                        (case sort_order
                                                (find (\<lambda>it. arg_name it = ''sortOrder'') args) of
                                           Inl e \<Rightarrow> Inl e
                                         | Inr ord \<Rightarrow>
                                             Inr (AccArr (xs @ ys @ [SEntry prefix v ord]))))))))
           | InlineFragment _ \<Rightarrow>
               (case spread_acc mode list of
                  Inl e \<Rightarrow> Inl e
                | Inr xs \<Rightarrow>
                    (case rec (OneNode ast) (Some prefix) of
                       Inl e \<Rightarrow> Inl e
                     | Inr sub \<Rightarrow>
                         (case spread_object mode (result_props sub) of
                            Inl e \<Rightarrow> Inl e
                          | Inr ys \<Rightarrow> Inr (AccArr (xs @ ys)))))
           | FragmentSpread _ \<Rightarrow>
               (case spread_acc mode list of
                  Inl e \<Rightarrow> Inl e
                | Inr xs \<Rightarrow>
                    (case rec (case obj_get (fragments i) n of
                                 None \<Rightarrow> Absent | Some f \<Rightarrow> OneNode f) (Some prefix) of
                       Inl e \<Rightarrow> Inl e
                     | Inr sub \<Rightarrow>
                         (case spread_object mode (result_props sub) of
                            Inl e \<Rightarrow> Inl e
                          | Inr ys \<Rightarrow> Inr (AccArr (xs @ ys)))))
           | _ \<Rightarrow> Inl UnsupportedSelection))"

subsection \<open>lodash \<open>orderBy\<close>\<close>

text \<open>
  \<open>orderBy(fieldArr, ['order', 'name', 'value'], ['asc'])\<close> sorts the elements of an array,
  or the property values of an object, by the three properties in turn, ascending, and
  keeps the given order between elements that compare equal. lodash compares with
  \<open>compareAscending\<close>: a defined value comes before undefined, and NaN comes last.
  A property read on a number or on undefined yields undefined.
\<close>

definition compareAscending ::
  "('a \<Rightarrow> 'a \<Rightarrow> bool) \<Rightarrow> ('a \<Rightarrow> bool) \<Rightarrow> 'a option \<Rightarrow> 'a option \<Rightarrow> int" where
  "compareAscending below reflexive val other =
     (let valIsReflexive = (case val of None \<Rightarrow> True | Some x \<Rightarrow> reflexive x);
          othIsReflexive = (case other of None \<Rightarrow> True | Some y \<Rightarrow> reflexive y);
          gt = (case (val, other) of (Some x, Some y) \<Rightarrow> below y x | _ \<Rightarrow> False);
          lt = (case (val, other) of (Some x, Some y) \<Rightarrow> below x y | _ \<Rightarrow> False)
      in if val = other \<and> valIsReflexive then 0
         else if gt \<or> (val = None \<and> othIsReflexive) \<or> \<not> valIsReflexive then 1
         else if lt \<or> (other = None \<and> valIsReflexive) \<or> \<not> othIsReflexive then - 1
         else 0)"

fun priority_less :: "priority \<Rightarrow> priority \<Rightarrow> bool" where
  "priority_less (Priority a) (Priority b) = (a < b)"
| "priority_less (Priority a) Unordered = True"
| "priority_less _ _ = False"

fun item_order :: "sitem \<Rightarrow> priority option" where
  "item_order (SEntry n v ord) = Some ord"
| "item_order _ = None"

fun item_name :: "sitem \<Rightarrow> string option" where
  "item_name (SEntry n v ord) = Some n"
| "item_name _ = None"

fun item_value :: "sitem \<Rightarrow> int option" where
  "item_value (SEntry n v ord) = Some v"
| "item_value _ = None"

definition compareMultiple :: "sitem \<Rightarrow> sitem \<Rightarrow> int" where
  "compareMultiple a b =
     (let c1 = compareAscending priority_less (\<lambda>p. p \<noteq> PriorityNaN) (item_order a) (item_order b)
      in if c1 \<noteq> 0 then c1
         else let c2 = compareAscending (<) (\<lambda>_. True) (item_name a) (item_name b)
              in if c2 \<noteq> 0 then c2
                 else compareAscending (<) (\<lambda>_. True) (item_value a) (item_value b))"

fun insert_item :: "sitem \<Rightarrow> sitem list \<Rightarrow> sitem list" where
  "insert_item x [] = [x]"
| "insert_item x (y # ys) =
     (if compareMultiple x y < 0 then x # y # ys else y # insert_item x ys)"

text \<open>
  The elements lodash iterates over: those of an array; for an object its property
  values, unless the object has a \<open>length\<close> that is a non-negative safe integer, in which
  case lodash takes it for array-like and reads the indices below \<open>length\<close>.
\<close>

definition collection_values :: "sort_acc \<Rightarrow> error + sitem list" where
  "collection_values fieldArr =
     (case fieldArr of
        AccArr xs \<Rightarrow> Inr xs
      | AccObj kvs \<Rightarrow>
          (case obj_get kvs ''length'' of
             Some (SNum n) \<Rightarrow>
               if 0 \<le> n \<and> n \<le> 9007199254740991
               then (if n > 4294967295 then Inl RangeError
                     else Inr (map (\<lambda>k. case obj_get kvs (digits_of_nat k) of
                                          Some v \<Rightarrow> v | None \<Rightarrow> SUndef) [0 ..< nat n]))
               else Inr (map snd kvs)
           | _ \<Rightarrow> Inr (map snd kvs)))"

definition orderBy :: "sort_acc \<Rightarrow> error + sitem list" where
  "orderBy fieldArr =
     (case collection_values fieldArr of
        Inl e \<Rightarrow> Inl e
      | Inr xs \<Rightarrow> Inr (foldl (\<lambda>ordered x. insert_item x ordered) [] xs))"

text \<open>\<open>(sorts, it) => (it.name ? {...sorts, [it.name]: it.value} : sorts)\<close>\<close>

definition sorts_step :: "sortobj \<Rightarrow> sitem \<Rightarrow> error + sortobj" where
  "sorts_step sorts it =
     (case it of
        SEntry n v ord \<Rightarrow> Inr (if n \<noteq> [] then obj_set sorts n v else sorts)
      | SNum _ \<Rightarrow> Inr sorts
      | SUndef \<Rightarrow> Inl TypeError)"

definition getSortObject_body ::
  "spread_mode \<Rightarrow> (string \<Rightarrow> jsval) \<Rightarrow> (field_nodes \<Rightarrow> string option \<Rightarrow> error + sortobj) \<Rightarrow>
   info option \<Rightarrow> field_nodes \<Rightarrow> string option \<Rightarrow> error + sortobj" where
  "getSortObject_body mode pf rec info fn parentName =
     (case info of
        None \<Rightarrow> Inr []
      | Some i \<Rightarrow>
          (case reduce_err (sort_step mode pf i rec parentName)
                  (selections_of (to_nodes i fn)) (AccArr []) of
             Inl e \<Rightarrow> Inl e
           | Inr fieldArr \<Rightarrow>
               (case orderBy fieldArr of
                  Inl e \<Rightarrow> Inl e
                | Inr ordered \<Rightarrow> reduce_err sorts_step ordered [])))"

primrec getSortObject ::
  "nat \<Rightarrow> spread_mode \<Rightarrow> (string \<Rightarrow> jsval) \<Rightarrow> info option \<Rightarrow> field_nodes \<Rightarrow> string option \<Rightarrow>
   error + sortobj" where
  "getSortObject 0 mode pf info fn parentName =
     getSortObject_body mode pf (\<lambda>_ _. Inl RangeError) info fn parentName"
| "getSortObject (Suc d) mode pf info fn parentName =
     getSortObject_body mode pf (getSortObject d mode pf info) info fn parentName"

subsection \<open>What the traversal visits\<close>

text \<open>The three kinds of selection the compiler handles.\<close>

fun supported_kind :: "node \<Rightarrow> bool" where
  "supported_kind (Field _ _ _) = True"
| "supported_kind (InlineFragment _) = True"
| "supported_kind (FragmentSpread _) = True"
| "supported_kind _ = False"

text \<open>
  The second argument of the recursive call made for a selection: the node itself, or
  for a spread the fragment found in \<open>info.fragments\<close> (undefined when there is none).
\<close>

definition callee_nodes :: "info \<Rightarrow> node \<Rightarrow> field_nodes" where
  "callee_nodes i ast =
     (case ast of
        FragmentSpread n \<Rightarrow>
          (case obj_get (fragments i) n of None \<Rightarrow> Absent | Some f \<Rightarrow> OneNode f)
      | _ \<Rightarrow> OneNode ast)"

definition sub_selections :: "info \<Rightarrow> node \<Rightarrow> node list" where
  "sub_selections i ast = selections_of (to_nodes i (callee_nodes i ast))"

text \<open>
  \<open>contains_other i sels\<close>: the tree below the selections \<open>sels\<close>, followed through
  selection sets and fragment spreads as the compiler follows them, has a node that is
  not a field, an inline fragment or a fragment spread.
\<close>

inductive contains_other :: "info \<Rightarrow> node list \<Rightarrow> bool" for i :: info where
  here: "ast \<in> set sels \<Longrightarrow> \<not> supported_kind ast \<Longrightarrow> contains_other i sels"
| below: "ast \<in> set sels \<Longrightarrow> supported_kind ast \<Longrightarrow> contains_other i (sub_selections i ast)
          \<Longrightarrow> contains_other i sels"

text \<open>The recursive call available at stack depth \<open>d\<close>.\<close>

definition filter_rec ::
  "nat \<Rightarrow> (string \<Rightarrow> jsval) \<Rightarrow> info \<Rightarrow> field_nodes \<Rightarrow> string option \<Rightarrow> error + jsobj" where
  "filter_rec d pf i =
     (case d of 0 \<Rightarrow> (\<lambda>_ _. Inl RangeError) | Suc d' \<Rightarrow> getFilterObject d' pf (Some i))"

definition sort_rec ::
  "nat \<Rightarrow> spread_mode \<Rightarrow> (string \<Rightarrow> jsval) \<Rightarrow> info \<Rightarrow> field_nodes \<Rightarrow> string option \<Rightarrow>
   error + sortobj" where
  "sort_rec d mode pf i =
     (case d of 0 \<Rightarrow> (\<lambda>_ _. Inl RangeError) | Suc d' \<Rightarrow> getSortObject d' mode pf (Some i))"

subsection \<open>Example requests\<close>

text \<open>
  A request resolved at one root field with the given selections, fragments and
  variable values; and the floating-point reader used in the examples, which keeps the
  literal's text.
\<close>

definition request :: "node list \<Rightarrow> (string \<times> node) list \<Rightarrow> (string \<times> jsval) list \<Rightarrow> info" where
  "request sels frags vars =
     \<lparr>fieldNodes = [Field ''users'' [] (Some sels)], fragments = frags, variableValues = vars\<rparr>"

definition keep_text :: "string \<Rightarrow> jsval" where
  "keep_text s = JFloat s"

section \<open>Hook composition\<close>

text \<open>
  An awaited call acts on a world \<open>'w\<close> (everything outside the function) and either
  returns a value or throws one: \<open>Inl\<close> is the rejection. A hook and a resolver are given
  their argument list.
\<close>

type_synonym 'w action = "'w \<Rightarrow> (jsval + jsval) \<times> 'w"

type_synonym 'w hook = "jsval list \<Rightarrow> 'w action"

text \<open>
  Modelled from the spec: the class \<open>Middleware\<close> (\<open>./Middleware\<close>), whose \<open>compose\<close>
  runs a hook list, is not among the sources. By the spec the hooks of a chain run one
  after the other, each on the arguments given to the chain; a hook that fails ends the
  chain and its failure is passed on unchanged; the chain yields the result of its last
  hook, and nothing (undefined) when the list is empty. Constructing the object runs no
  hook.
\<close>

fun compose :: "'w hook list \<Rightarrow> jsval list \<Rightarrow> 'w action" where
  "compose [] args w = (Inr JUndefined, w)"
| "compose (h # hs) args w =
     (case h args w of
        (Inl e, w') \<Rightarrow> (Inl e, w')
      | (Inr r, w') \<Rightarrow> if hs = [] then (Inr r, w') else compose hs args w')"

text \<open>
  \<open>addHooks(resolver, {pre, post})\<close>, applied to \<open>args\<close>: await the pre chain on the
  arguments, await the resolver, await the post chain on the result followed by the
  arguments, and return \<open>postResult || result\<close>. An absent hook list is the empty list.
\<close>

definition addHooks :: "'w hook \<Rightarrow> 'w hook list \<Rightarrow> 'w hook list \<Rightarrow> jsval list \<Rightarrow> 'w action" where
  "addHooks resolver pre post args w =
     (case compose pre args w of
        (Inl e, w1) \<Rightarrow> (Inl e, w1)
      | (Inr _, w1) \<Rightarrow>
          (case resolver args w1 of
             (Inl e, w2) \<Rightarrow> (Inl e, w2)
           | (Inr result, w2) \<Rightarrow>
               (case compose post (result # args) w2 of
                  (Inl e, w3) \<Rightarrow> (Inl e, w3)
                | (Inr p, w3) \<Rightarrow> (Inr (if truthy p then p else result), w3))))"

text \<open>
  Hooks observed through the calls they receive: the world is the list of calls made so
  far. \<open>traced n f\<close> records its call and returns \<open>f args\<close>; \<open>failing n e\<close> records its
  call and throws \<open>e\<close>.
\<close>

datatype call = Call string "jsval list"

definition traced :: "string \<Rightarrow> (jsval list \<Rightarrow> jsval) \<Rightarrow> call list hook" where
  "traced n f args w = (Inr (f args), w @ [Call n args])"

definition failing :: "string \<Rightarrow> jsval \<Rightarrow> call list hook" where
  "failing n e args w = (Inl e, w @ [Call n args])"

definition traced_chain :: "(string \<times> (jsval list \<Rightarrow> jsval)) list \<Rightarrow> call list hook list" where
  "traced_chain hs = map (\<lambda>(n, f). traced n f) hs"

definition chain_calls :: "(string \<times> (jsval list \<Rightarrow> jsval)) list \<Rightarrow> jsval list \<Rightarrow> call list" where
  "chain_calls hs args = map (\<lambda>(n, f). Call n args) hs"

definition chain_result :: "(string \<times> (jsval list \<Rightarrow> jsval)) list \<Rightarrow> jsval list \<Rightarrow> jsval" where
  "chain_result hs args = (case rev hs of [] \<Rightarrow> JUndefined | (n, f) # _ \<Rightarrow> f args)"

section \<open>Field arguments\<close>

text \<open>
  The types a synthesized field can have when its arguments are derived: scalars and
  enums by name, lists, the non-null wrapper, object types with their field map (name and
  type of each field) and input object types.
\<close>

datatype gtype =
    GScalar string
  | GEnum string
  | GList gtype
  | GNonNull gtype
  | GObject string "(string \<times> gtype) list"
  | GInputObject string "(string \<times> gtype) list"

definition GraphQLLogical :: gtype where "GraphQLLogical = GEnum ''op''"

definition GraphQLSort :: gtype where "GraphQLSort = GEnum ''sort''"

definition GraphQLInt :: gtype where "GraphQLInt = GScalar ''Int''"

text \<open>\<open>if (type instanceof GraphQLNonNull) type = type.ofType\<close>\<close>

fun unwrapped :: "gtype \<Rightarrow> gtype" where
  "unwrapped (GNonNull t) = t"
| "unwrapped t = t"

text \<open>
  \<open>createInputObject\<close> on a type that, the wrapper removed, is no object type. Scalars and
  input objects are returned as they are. For the rest the memo \<open>inputByTypes\<close> is read
  under the type's name (a list or a wrapper has none: the key is \<open>undefined\<close>), and on a
  miss \<open>getTypeFields\<close> reads \<open>type._typeConfig.fields\<close>, where only object types have a
  \<open>_typeConfig\<close>.
\<close>

fun createInputOther :: "(string \<times> gtype) list \<Rightarrow> gtype \<Rightarrow> error + gtype \<times> (string \<times> gtype) list" where
  "createInputOther memo (GScalar n) = Inr (GScalar n, memo)"
| "createInputOther memo (GInputObject n fs) = Inr (GInputObject n fs, memo)"
| "createInputOther memo (GEnum n) =
     (case obj_get memo n of Some m \<Rightarrow> Inr (m, memo) | None \<Rightarrow> Inl TypeError)"
| "createInputOther memo t =
     (case obj_get memo ''undefined'' of Some m \<Rightarrow> Inr (m, memo) | None \<Rightarrow> Inl TypeError)"

text \<open>
  \<open>createInputObject(type)\<close> with the memo \<open>inputByTypes\<close> passed through. For an object
  type not yet in the memo the fields are mirrored first, each through a recursive call,
  and the new input object is stored under the type's name.
\<close>

fun createInputObject ::
      "(string \<times> gtype) list \<Rightarrow> gtype \<Rightarrow> error + gtype \<times> (string \<times> gtype) list"
  and mirrorObject ::
      "(string \<times> gtype) list \<Rightarrow> string \<Rightarrow> (string \<times> gtype) list \<Rightarrow>
       error + gtype \<times> (string \<times> gtype) list"
  and inputFields ::
      "(string \<times> gtype) list \<Rightarrow> (string \<times> gtype) list \<Rightarrow> (string \<times> gtype) list \<Rightarrow>
       error + (string \<times> gtype) list \<times> (string \<times> gtype) list" where
  "createInputObject memo (GNonNull (GObject n fs)) = mirrorObject memo n fs"
| "createInputObject memo (GObject n fs) = mirrorObject memo n fs"
| "createInputObject memo (GNonNull t) = createInputOther memo t"
| "createInputObject memo t = createInputOther memo t"
| "mirrorObject memo n fs =
     (case obj_get memo n of
        Some m \<Rightarrow> Inr (m, memo)
      | None \<Rightarrow>
          (case inputFields memo fs [] of
             Inl e \<Rightarrow> Inl e
           | Inr (inputs, memo') \<Rightarrow>
               Inr (GInputObject (''inputFor'' @ n) inputs,
                    obj_set memo' n (GInputObject (''inputFor'' @ n) inputs))))"
| "inputFields memo [] inputs = Inr (inputs, memo)"
| "inputFields memo ((k, t) # fs) inputs =
     (case createInputObject memo t of
        Inl e \<Rightarrow> Inl e
      | Inr (m, memo') \<Rightarrow> inputFields memo' fs (obj_set inputs k m))"

definition is_scalar_or_enum :: "gtype \<Rightarrow> bool" where
  "is_scalar_or_enum t = (case t of GScalar _ \<Rightarrow> True | GEnum _ \<Rightarrow> True | _ \<Rightarrow> False)"

text \<open>
  \<open>getFieldArguments(field, args)\<close>: the field is its name and type, an argument map
  gives each argument's type. Inside the branch for a list the source asks whether
  \<open>type\<close>, the list, is an object type, before it adds \<open>elemMatch\<close>.
\<close>

definition getFieldArguments ::
  "(string \<times> gtype) list \<Rightarrow> string \<times> gtype \<Rightarrow> (string \<times> gtype) list \<Rightarrow>
   error + (string \<times> gtype) list \<times> (string \<times> gtype) list" where
  "getFieldArguments memo field args =
     (if fst field = ''_id'' \<or> fst field = ''id'' then Inr (args, memo)
      else
        let type = unwrapped (snd field);
            args1 = (if is_scalar_or_enum type
                     then obj_spread
                            (obj_spread args
                               [(''eq'', type), (''gt'', type), (''gte'', type), (''lt'', type),
                                (''lte'', type), (''ne'', type), (''in'', GList type),
                                (''nin'', GList type), (''op'', GraphQLLogical)])
                            [(''sort'', GraphQLSort), (''sortOrder'', GraphQLInt)]
                     else args)
        in case type of
             GList ofType \<Rightarrow>
               (case createInputObject memo ofType of
                  Inl e \<Rightarrow> Inl e
                | Inr (m, memo1) \<Rightarrow>
                    (let args2 = obj_spread args1 [(''all'', GList m), (''size'', GraphQLInt)]
                     in case type of
                          GObject _ _ \<Rightarrow>
                            (case createInputObject memo1 ofType of
                               Inl e \<Rightarrow> Inl e
                             | Inr (m', memo2) \<Rightarrow>
                                 Inr (obj_spread args2 [(''elemMatch'', m')], memo2))
                        | _ \<Rightarrow> Inr (args2, memo1)))
           | _ \<Rightarrow> Inr (args1, memo))"

section \<open>The type context and getTypes\<close>

text \<open>
  Model descriptors, as far as the registration of references reads them: a field has a
  kind (\<open>type\<close>), a \<open>subtype\<close>, an optional \<open>reference\<close>, the \<open>hidden\<close> flag and, for
  nested objects, its own fields. Embedded-model fields are outside this model.
\<close>

datatype fdesc =
  FDesc (f_type: string) (f_subtype: string) (f_reference: "string option") (f_hidden: bool)
        (f_fields: "(string \<times> fdesc) list")

record gmodel =
  mkey :: string
  mname :: string
  mfields :: "(string \<times> fdesc) list"

text \<open>
  A synthesized object type: its identity (the context that built it and a serial
  number), its name and its \<open>interfaces\<close> (\<open>None\<close> when the property is absent, as on
  nested types). A node interface is identified by the context that owns it. The field
  maps of the types are not modelled.
\<close>

record tobj =
  oid :: "nat \<times> nat"
  tname :: string
  interfaces :: "nat list option"

text \<open>
  An entry of \<open>resolveReference\<close>: the \<open>type\<close> property starts as the target model's name
  and is overwritten by the resolution pass, with the target type (or undefined) or with
  a connection type named after owner and field, around a node type (or undefined).
\<close>

datatype slot_type =
    ByName string
  | TypeObject tobj
  | Undefined
  | ConnectionType string "tobj option"

datatype slot = Slot (slot_type: slot_type) (slot_plural: bool)

text \<open>The property key a \<open>type\<close> value gives in \<open>types[field.type]\<close>; an object type renders as its name.\<close>

fun slot_key :: "slot_type \<Rightarrow> string" where
  "slot_key (ByName s) = s"
| "slot_key (TypeObject t) = tname t"
| "slot_key Undefined = ''undefined''"
| "slot_key (ConnectionType n _) = n @ ''Connection''"

record ctx =
  ctx_id :: nat
  registry :: "(string \<times> tobj) list"
  resolveReference :: "(string \<times> (string \<times> slot) list) list"
  next_oid :: nat

definition nodeInterface :: "ctx \<Rightarrow> nat" where
  "nodeInterface c = ctx_id c"

text \<open>\<open>createTypeContext\<close>: a new node interface, the Viewer type registered, no references.\<close>

definition createTypeContext :: "nat \<Rightarrow> ctx" where
  "createTypeContext cid =
     \<lparr>ctx_id = cid,
      registry = [(''Viewer'', \<lparr>oid = (cid, 0), tname = ''Viewer'', interfaces = Some [cid]\<rparr>)],
      resolveReference = [],
      next_oid = 1\<rparr>"

definition addType :: "ctx \<Rightarrow> string \<Rightarrow> tobj \<Rightarrow> ctx" where
  "addType c n t = c\<lparr>registry := obj_set (registry c) n t\<rparr>"

definition new_type :: "ctx \<Rightarrow> string \<Rightarrow> nat list option \<Rightarrow> tobj \<times> ctx" where
  "new_type c n ifs =
     (\<lparr>oid = (ctx_id c, next_oid c), tname = n, interfaces = ifs\<rparr>,
      c\<lparr>next_oid := Suc (next_oid c)\<rparr>)"

definition to_upper :: "char \<Rightarrow> char" where
  "to_upper ch =
     (if 97 \<le> (of_char ch :: nat) \<and> (of_char ch :: nat) \<le> 122
      then char_of ((of_char ch :: nat) - 32) else ch)"

definition getTypeFieldName :: "string \<Rightarrow> string \<Rightarrow> string" where
  "getTypeFieldName typeName fieldName =
     typeName @ (case fieldName of [] \<Rightarrow> [] | ch # rest \<Rightarrow> to_upper ch # rest)"

fun join_dot :: "string list \<Rightarrow> string" where
  "join_dot [] = []"
| "join_dot [s] = s"
| "join_dot (s # t # ss) = s @ ''.'' @ join_dot (t # ss)"

text \<open>\<open>resolveReference[name] = resolveReference[name] || {}\<close>\<close>

definition ensure_entry :: "ctx \<Rightarrow> string \<Rightarrow> ctx" where
  "ensure_entry c n =
     (case obj_get (resolveReference c) n of
        Some _ \<Rightarrow> c
      | None \<Rightarrow> c\<lparr>resolveReference := obj_set (resolveReference c) n []\<rparr>)"

text \<open>
  \<open>resolveReference[rootType.name][k] = slot\<close>; the entry of the root type exists, the
  call for the root type has made it.
\<close>

definition register_slot :: "ctx \<Rightarrow> string \<Rightarrow> string \<Rightarrow> slot \<Rightarrow> ctx" where
  "register_slot c rootName k s =
     c\<lparr>resolveReference :=
          obj_set (resolveReference c) rootName
            (obj_set (case obj_get (resolveReference c) rootName of None \<Rightarrow> [] | Some e \<Rightarrow> e) k s)\<rparr>"

text \<open>
  \<open>getType(graffitiModels, {name, fields}, path, rootType)\<close>, reduced to what it does to
  the context: it makes the entry of \<open>resolveReference\<close>, walks the fields (skipping the
  hidden ones and those whose name starts with two underscores), builds nested types for
  objects and arrays of objects, registers a plural slot under the field name for an array
  with a reference and a singular slot under the dotted path for an \<open>ObjectID\<close> with a
  reference, builds the type (with the context's node interface when it is a root) and
  registers a root under its name.
\<close>

fun getType :: "ctx \<Rightarrow> string \<Rightarrow> (string \<times> fdesc) list \<Rightarrow> string list \<Rightarrow> string option \<Rightarrow> tobj \<times> ctx"
  and typeFields :: "ctx \<Rightarrow> string \<Rightarrow> string \<Rightarrow> string list \<Rightarrow> (string \<times> fdesc) list \<Rightarrow> ctx" where
  "getType c n fs path rootType =
     (let rootName = (case rootType of None \<Rightarrow> n | Some r \<Rightarrow> r);
          c1 = typeFields (ensure_entry c n) n rootName path fs;
          (t, c2) = new_type c1 n (if path = [] then Some [nodeInterface c1] else None)
      in (t, if path = [] then addType c2 n t else c2))"
| "typeFields c tn rootName path [] = c"
| "typeFields c tn rootName path ((k, FDesc type subtype reference hidden subfields) # fs) =
     (if hidden \<or> take 2 k = ''__'' then typeFields c tn rootName path fs
      else if type = ''Array'' then
        (if subtype = ''Object''
         then typeFields
                (snd (getType c (getTypeFieldName tn k) subfields (path @ [k]) (Some rootName)))
                tn rootName path fs
         else typeFields
                (case reference of
                   None \<Rightarrow> c
                 | Some r \<Rightarrow> register_slot c rootName k (Slot (ByName r) True))
                tn rootName path fs)
      else if type = ''Object'' then
        typeFields
          (snd (getType c (getTypeFieldName tn k) subfields (path @ [k]) (Some rootName)))
          tn rootName path fs
      else
        typeFields
          (case reference of
             None \<Rightarrow> c
           | Some r \<Rightarrow>
               if type = ''ObjectID''
               then register_slot c rootName (join_dot (path @ [k])) (Slot (ByName r) False)
               else c)
          tn rootName path fs)"

text \<open>
  The state of one \<open>getTypes\<close> call: the context, the type cache (\<open>None\<close> when caching is
  off), \<open>reResolveTypes\<close> and the map under construction.
\<close>

record gt_state =
  gt_ctx :: ctx
  gt_cache :: "(string \<times> tobj) list option"
  reResolveTypes :: "string list"
  gt_types :: "(string \<times> tobj) list"

text \<open>
  The callback of the reduce over the models. A cached type whose first interface is
  not this context's node interface is rebuilt from its configuration with that interface,
  its name is pushed on \<open>reResolveTypes\<close> and it is registered under the model's name; a
  cached type whose interface matches is taken as it is.
\<close>

definition getTypes_step :: "gt_state \<Rightarrow> gmodel \<Rightarrow> error + gt_state" where
  "getTypes_step s m =
     (case gt_cache s of
        Some cache \<Rightarrow>
          (case obj_get cache (mkey m) of
             None \<Rightarrow>
               (let (t, c) = getType (gt_ctx s) (mname m) (mfields m) [] None
                in Inr (s\<lparr>gt_ctx := c, gt_cache := Some (obj_set cache (mkey m) t),
                          gt_types := obj_set (gt_types s) (mname m) t\<rparr>))
           | Some cached \<Rightarrow>
               (case interfaces cached of
                  None \<Rightarrow> Inl TypeError
                | Some ifs \<Rightarrow>
                    if (case ifs of [] \<Rightarrow> True | x # _ \<Rightarrow> x \<noteq> nodeInterface (gt_ctx s))
                    then
                      (let (t, c) = new_type (gt_ctx s) (tname cached)
                                      (Some [nodeInterface (gt_ctx s)])
                       in Inr (s\<lparr>gt_ctx := addType c (mname m) t,
                                 reResolveTypes := reResolveTypes s @ [tname t],
                                 gt_types := obj_set (gt_types s) (mname m) t\<rparr>))
                    else Inr (s\<lparr>gt_types := obj_set (gt_types s) (mname m) cached\<rparr>)))
      | None \<Rightarrow>
          (let (t, c) = getType (gt_ctx s) (mname m) (mfields m) [] None
           in Inr (s\<lparr>gt_ctx := c, gt_types := obj_set (gt_types s) (mname m) t\<rparr>)))"

text \<open>The resolution of one slot of the type \<open>typeName\<close> against the map \<open>types\<close>.\<close>

definition resolve_slot :: "(string \<times> tobj) list \<Rightarrow> string \<Rightarrow> string \<times> slot \<Rightarrow> string \<times> slot" where
  "resolve_slot types typeName entry =
     (case entry of
        (fieldName, Slot ty plural) \<Rightarrow>
          (fieldName,
           Slot (if plural
                 then ConnectionType (getTypeFieldName typeName fieldName) (obj_get types (slot_key ty))
                 else (case obj_get types (slot_key ty) of
                         None \<Rightarrow> Undefined | Some t \<Rightarrow> TypeObject t))
                plural))"

text \<open>
  The pass over \<open>resolveReference\<close>, with the test that skips a type name as parameter.
  Besides the entries it returns the names of the types whose references it has assigned,
  in order.
\<close>

fun resolve_pass ::
  "(string \<Rightarrow> bool) \<Rightarrow> (string \<times> tobj) list \<Rightarrow> (string \<times> (string \<times> slot) list) list \<Rightarrow>
   (string \<times> (string \<times> slot) list) list \<times> string list" where
  "resolve_pass skip types [] = ([], [])"
| "resolve_pass skip types ((typeName, slots) # rest) =
     (let (rest', ran) = resolve_pass skip types rest
      in if skip typeName then ((typeName, slots) # rest', ran)
         else (case obj_get types typeName of
                 None \<Rightarrow> ((typeName, slots) # rest', ran)
               | Some _ \<Rightarrow>
                   ((typeName, map (resolve_slot types typeName) slots) # rest', typeName # ran)))"

record gt_result =
  res_types :: "(string \<times> tobj) list"
  res_ctx :: ctx
  res_cache :: "(string \<times> tobj) list option"
  res_resolved :: "string list"

definition finish_getTypes :: "(gt_state \<Rightarrow> string \<Rightarrow> bool) \<Rightarrow> gt_state \<Rightarrow> gt_result" where
  "finish_getTypes skip s =
     (let (rr, ran) = resolve_pass (skip s) (gt_types s) (resolveReference (gt_ctx s))
      in \<lparr>res_types = gt_types s,
          res_ctx = (gt_ctx s)\<lparr>resolveReference := rr\<rparr>,
          res_cache = gt_cache s,
          res_resolved = ran\<rparr>)"

text \<open>
  \<open>getTypes\<close> of the type module with \<open>getFieldArguments\<close>: the pass skips the names in
  \<open>reResolveTypes\<close>.
\<close>

definition getTypes :: "ctx \<Rightarrow> (string \<times> tobj) list option \<Rightarrow> gmodel list \<Rightarrow> error + gt_result" where
  "getTypes c cache models =
     (case reduce_err getTypes_step models
             \<lparr>gt_ctx = c, gt_cache = cache, reResolveTypes = [], gt_types = []\<rparr> of
        Inl e \<Rightarrow> Inl e
      | Inr s \<Rightarrow> Inr (finish_getTypes (\<lambda>s typeName. typeName \<in> set (reResolveTypes s)) s))"

text \<open>
  \<open>getTypes\<close> of \<open>src/type/type.js\<close>: no \<open>reResolveTypes\<close>; the pass skips a type name
  that the cache holds (\<open>cache ? !cache.get(typeName) : true\<close>).
\<close>

definition getTypes_type_js :: "ctx \<Rightarrow> (string \<times> tobj) list option \<Rightarrow> gmodel list \<Rightarrow> error + gt_result" where
  "getTypes_type_js c cache models =
     (case reduce_err getTypes_step models
             \<lparr>gt_ctx = c, gt_cache = cache, reResolveTypes = [], gt_types = []\<rparr> of
        Inl e \<Rightarrow> Inl e
      | Inr s \<Rightarrow>
          Inr (finish_getTypes
                 (\<lambda>s typeName. case gt_cache s of
                                  None \<Rightarrow> False
                                | Some cache \<Rightarrow> obj_get cache typeName \<noteq> None) s))"

text \<open>The model of the test suite, reduced to three fields, under key and name \<open>User\<close>.\<close>

definition user_fields :: "(string \<times> fdesc) list" where
  "user_fields =
     [(''name'', FDesc ''String'' [] None False []),
      (''mother'', FDesc ''ObjectID'' [] (Some ''User'') False []),
      (''friends'', FDesc ''Array'' ''ObjectID'' (Some ''User'') False [])]"

definition user :: gmodel where
  "user = \<lparr>mkey = ''User'', mname = ''User'', mfields = user_fields\<rparr>"

text \<open>A further call on the context and the cache that a call has left.\<close>

definition again :: "error + gt_result \<Rightarrow> gmodel list \<Rightarrow> error + gt_result" where
  "again r models =
     (case r of Inl e \<Rightarrow> Inl e | Inr x \<Rightarrow> getTypes (res_ctx x) (res_cache x) models)"

definition again_type_js :: "error + gt_result \<Rightarrow> gmodel list \<Rightarrow> error + gt_result" where
  "again_type_js r models =
     (case r of Inl e \<Rightarrow> Inl e | Inr x \<Rightarrow> getTypes_type_js (res_ctx x) (res_cache x) models)"

section \<open>Shared lemmas\<close>

lemma parseValue_index: "parseValue pf a1 (ArgIndex k) = Inr JUndefined"
  by (simp add: parseValue.simps)

lemma map_err_const: "(\<And>x. x \<in> set xs \<Longrightarrow> f x = Inr c) \<Longrightarrow> map_err f xs = Inr (replicate (length xs) c)"
  by (induction xs) auto

lemma parseValue_list:
  "parseValue pf a1 (ArgNode (ListValue vs)) = Inr (JArr (replicate (length vs) JUndefined))"
proof -
  have "map_err (\<lambda>(element, index). parseValue pf (ArgNode element) (ArgIndex index))
          (zip vs [0 ..< length vs]) = Inr (replicate (length (zip vs [0 ..< length vs])) JUndefined)"
    by (rule map_err_const) (auto simp: parseValue_index)
  then show ?thesis by (simp add: parseValue.simps)
qed

lemma parseValue_info_not_unsupported:
  "parseValue pf (ArgInfo i) (ArgNode n) \<noteq> Inl UnsupportedSelection"
proof (cases n)
  case (ListValue vs)
  then show ?thesis by (simp add: parseValue_list)
qed (simp_all add: parseValue.simps split: parsed.splits option.splits)

lemma map_err_never: "(\<And>x. x \<in> set xs \<Longrightarrow> f x \<noteq> Inl e) \<Longrightarrow> map_err f xs \<noteq> Inl e"
proof (induction xs)
  case Nil then show ?case by simp
next
  case (Cons x xs)
  from Cons.prems have "f x \<noteq> Inl e" by simp
  moreover from Cons have "map_err f xs \<noteq> Inl e" by simp
  ultimately show ?case by (auto split: sum.splits)
qed

lemma filters_of_not_unsupported: "filters_of pf i args \<noteq> Inl UnsupportedSelection"
  unfolding filters_of_def
proof (rule map_err_never)
  fix x
  show "(case parseValue pf (ArgInfo i) (ArgNode (arg_value x)) of Inl e \<Rightarrow> Inl e
         | Inr v \<Rightarrow> Inr (JObj [(''$'' @ arg_name x, v)])) \<noteq> Inl UnsupportedSelection"
    using parseValue_info_not_unsupported [of pf i "arg_value x"] by (auto split: sum.splits)
qed

lemma filter_config_not_unsupported: "filter_config prefix op filters \<noteq> Inl UnsupportedSelection"
  by (simp add: filter_config_def split: option.splits)

lemma sort_value_not_unsupported: "sort_value pf i a \<noteq> Inl UnsupportedSelection"
  using parseValue_info_not_unsupported [of pf i "arg_value a"]
  by (auto simp: sort_value_def split: sum.splits parsed.splits)

lemma sort_order_not_unsupported: "sort_order orderArg \<noteq> Inl UnsupportedSelection"
  by (simp add: sort_order_def split: option.splits parsed.splits)

lemma getFilterObject_unfold:
  "getFilterObject d pf (Some i) fn p =
     reduce_err (filter_step pf i (filter_rec d pf i) p) (selections_of (to_nodes i fn)) []"
  by (cases d) (simp_all add: getFilterObject_body_def filter_rec_def)

lemma getSortObject_unfold:
  "getSortObject d mode pf (Some i) fn p =
     (case reduce_err (sort_step mode pf i (sort_rec d mode pf i) p) (selections_of (to_nodes i fn)) (AccArr []) of
        Inl e \<Rightarrow> Inl e
      | Inr fieldArr \<Rightarrow>
          (case orderBy fieldArr of
             Inl e \<Rightarrow> Inl e
           | Inr ordered \<Rightarrow> reduce_err sorts_step ordered []))"
  by (cases d) (simp_all add: getSortObject_body_def sort_rec_def)

lemma reduce_err_isl:
  "x \<in> set xs \<Longrightarrow> (\<And>acc. isl (f acc x)) \<Longrightarrow> isl (reduce_err f xs acc)"
proof (induction xs arbitrary: acc)
  case Nil then show ?case by simp
next
  case (Cons y ys)
  show ?case
  proof (cases "f acc y")
    case (Inl e) then show ?thesis by simp
  next
    case (Inr acc')
    show ?thesis
    proof (cases "x = y")
      case True
      with Cons.prems(2) [of acc] Inr show ?thesis by simp
    next
      case False
      with Cons have "isl (reduce_err f ys acc')" by auto
      with Inr show ?thesis by simp
    qed
  qed
qed

lemma filter_step_other: "\<not> supported_kind ast \<Longrightarrow> isl (filter_step pf i r p acc ast)"
  by (cases ast) (auto simp: filter_step_def Let_def split: option.splits)

lemma sort_step_other: "\<not> supported_kind ast \<Longrightarrow> isl (sort_step mode pf i r p acc ast)"
  by (cases ast) (auto simp: sort_step_def Let_def split: option.splits)

lemma filter_step_rec_isl:
  assumes "supported_kind ast" and "\<And>q. isl (r (callee_nodes i ast) q)"
  shows "isl (filter_step pf i r p acc ast)"
proof (cases ast)
  case (Field n args s)
  obtain e where "r (OneNode ast) (Some (prefix_of p n)) = Inl e"
    using assms(2) [of "Some (prefix_of p n)"] Field by (auto simp: callee_nodes_def isl_def)
  with Field show ?thesis by (simp add: filter_step_def Let_def split: sum.splits)
next
  case (InlineFragment s)
  then show ?thesis by (simp add: filter_step_def)
next
  case (FragmentSpread n)
  obtain e where "r (callee_nodes i ast) (Some (prefix_of p n)) = Inl e"
    using assms(2) [of "Some (prefix_of p n)"] by (auto simp: isl_def)
  with FragmentSpread show ?thesis by (simp add: filter_step_def callee_nodes_def Let_def)
qed (use assms(1) in simp_all)

lemma sort_step_rec_isl:
  assumes "supported_kind ast" and "\<And>q. isl (r (callee_nodes i ast) q)"
  shows "isl (sort_step mode pf i r p acc ast)"
proof (cases ast)
  case (Field n args s)
  obtain e where e: "r (OneNode ast) (Some (prefix_of p n)) = Inl e"
    using assms(2) [of "Some (prefix_of p n)"] Field by (auto simp: callee_nodes_def isl_def)
  obtain e' where e': "r (OneNode ast) None = Inl e'"
    using assms(2) [of None] Field by (auto simp: callee_nodes_def isl_def)
  from Field e e' show ?thesis
    by (simp add: sort_step_def Let_def split: sum.splits option.splits)
next
  case (InlineFragment s)
  then show ?thesis by (simp add: sort_step_def)
next
  case (FragmentSpread n)
  obtain e where "r (callee_nodes i ast) (Some (prefix_of p n)) = Inl e"
    using assms(2) [of "Some (prefix_of p n)"] by (auto simp: isl_def)
  with FragmentSpread show ?thesis
    by (simp add: sort_step_def callee_nodes_def Let_def split: sum.splits)
qed (use assms(1) in simp_all)

lemma contains_other_filter_raises:
  "contains_other i sels \<Longrightarrow> isl (reduce_err (filter_step pf i (filter_rec d pf i) p) sels acc)"
proof (induction arbitrary: d p acc rule: contains_other.induct)
  case (here ast sels)
  then show ?case by (intro reduce_err_isl [of ast]) (auto intro: filter_step_other)
next
  case (below ast sels)
  have rec: "isl (filter_rec d pf i (callee_nodes i ast) q)" for q
  proof (cases d)
    case 0 then show ?thesis by (simp add: filter_rec_def)
  next
    case (Suc d')
    then have "filter_rec d pf i (callee_nodes i ast) q = getFilterObject d' pf (Some i) (callee_nodes i ast) q"
      by (simp add: filter_rec_def)
    also have "\<dots> = reduce_err (filter_step pf i (filter_rec d' pf i) q) (sub_selections i ast) []"
      by (simp add: getFilterObject_unfold sub_selections_def)
    finally show ?thesis using below.IH by simp
  qed
  show ?case
    by (rule reduce_err_isl [of ast]) (use below.hyps rec in \<open>auto intro: filter_step_rec_isl\<close>)
qed

lemma contains_other_sort_raises:
  "contains_other i sels \<Longrightarrow> isl (reduce_err (sort_step mode pf i (sort_rec d mode pf i) p) sels acc)"
proof (induction arbitrary: d p acc rule: contains_other.induct)
  case (here ast sels)
  then show ?case by (intro reduce_err_isl [of ast]) (auto intro: sort_step_other)
next
  case (below ast sels)
  have rec: "isl (sort_rec d mode pf i (callee_nodes i ast) q)" for q
  proof (cases d)
    case 0 then show ?thesis by (simp add: sort_rec_def)
  next
    case (Suc d')
    have "isl (reduce_err (sort_step mode pf i (sort_rec d' mode pf i) q) (sub_selections i ast) (AccArr []))"
      using below.IH by simp
    then show ?thesis using Suc
      by (auto simp: sort_rec_def getSortObject_unfold sub_selections_def split: sum.splits)
  qed
  show ?case
    by (rule reduce_err_isl [of ast]) (use below.hyps rec in \<open>auto intro: sort_step_rec_isl\<close>)
qed

lemma contains_other_Nil: "\<not> contains_other i []"
  by (auto elim: contains_other.cases)

lemma contains_other_Cons:
  "contains_other i (x # xs) \<longleftrightarrow>
     \<not> supported_kind x \<or> contains_other i (sub_selections i x) \<or> contains_other i xs"
proof
  assume "contains_other i (x # xs)"
  then show "\<not> supported_kind x \<or> contains_other i (sub_selections i x) \<or> contains_other i xs"
  proof (cases rule: contains_other.cases)
    case (here ast)
    then show ?thesis by (auto intro: contains_other.here)
  next
    case (below ast)
    then show ?thesis by (auto intro: contains_other.below)
  qed
next
  assume "\<not> supported_kind x \<or> contains_other i (sub_selections i x) \<or> contains_other i xs"
  then consider "\<not> supported_kind x" | "supported_kind x" "contains_other i (sub_selections i x)"
    | "contains_other i xs" by blast
  then show "contains_other i (x # xs)"
  proof cases
    case 1 then show ?thesis by (auto intro: contains_other.here [of x])
  next
    case 2 then show ?thesis by (auto intro: contains_other.below [of x])
  next
    case 3
    then show ?thesis
    proof (cases rule: contains_other.cases)
      case (here ast) then show ?thesis by (auto intro: contains_other.here [of ast])
    next
      case (below ast) then show ?thesis by (auto intro: contains_other.below [of ast])
    qed
  qed
qed

text \<open>The two equations by which the predicate is computed on a given tree.\<close>

lemma contains_other_code [code]:
  "contains_other i [] = False"
  "contains_other i (x # xs) =
     (\<not> supported_kind x \<or> contains_other i (sub_selections i x) \<or> contains_other i xs)"
  by (simp_all add: contains_other_Nil contains_other_Cons)

lemma reduce_err_never:
  "(\<And>x acc. x \<in> set xs \<Longrightarrow> f acc x \<noteq> Inl e) \<Longrightarrow> reduce_err f xs acc \<noteq> Inl e"
proof (induction xs arbitrary: acc)
  case Nil then show ?case by simp
next
  case (Cons y ys)
  show ?case
  proof (cases "f acc y")
    case (Inl e')
    with Cons.prems [of y acc] show ?thesis by auto
  next
    case (Inr acc')
    with Cons show ?thesis by auto
  qed
qed

lemma spread_object_not_unsupported: "spread_object mode obj \<noteq> Inl UnsupportedSelection"
  by (cases mode) (auto simp: spread_object_def array_from_def Let_def)

lemma spread_acc_not_unsupported: "spread_acc mode acc \<noteq> Inl UnsupportedSelection"
  by (cases acc) (auto simp: spread_acc_def spread_object_not_unsupported)

lemma filter_step_supported:
  assumes "supported_kind ast" and "\<And>q. r (callee_nodes i ast) q \<noteq> Inl UnsupportedSelection"
  shows "filter_step pf i r p acc ast \<noteq> Inl UnsupportedSelection"
proof (cases ast)
  case (Field n args s)
  from Field assms(2) [of "Some (prefix_of p n)"] filters_of_not_unsupported [of pf i args]
  show ?thesis
    by (auto simp: filter_step_def Let_def callee_nodes_def filter_config_not_unsupported
          split: sum.splits)
next
  case (InlineFragment s)
  then show ?thesis by (simp add: filter_step_def)
next
  case (FragmentSpread n)
  with assms(2) [of "Some (prefix_of p n)"] show ?thesis
    by (auto simp: filter_step_def Let_def callee_nodes_def split: sum.splits)
qed (use assms(1) in simp_all)

lemma sort_step_supported:
  assumes "supported_kind ast" and "\<And>q. r (callee_nodes i ast) q \<noteq> Inl UnsupportedSelection"
  shows "sort_step mode pf i r p acc ast \<noteq> Inl UnsupportedSelection"
proof (cases ast)
  case (Field n args s)
  from Field assms(2) [of "Some (prefix_of p n)"] assms(2) [of None] show ?thesis
    by (auto simp: sort_step_def Let_def callee_nodes_def spread_acc_not_unsupported
          spread_object_not_unsupported sort_value_not_unsupported sort_order_not_unsupported
          split: sum.splits option.splits)
next
  case (InlineFragment s)
  then show ?thesis by (simp add: sort_step_def)
next
  case (FragmentSpread n)
  with assms(2) [of "Some (prefix_of p n)"] show ?thesis
    by (auto simp: sort_step_def Let_def callee_nodes_def spread_acc_not_unsupported
          spread_object_not_unsupported split: sum.splits)
qed (use assms(1) in simp_all)

lemma orderBy_not_unsupported: "orderBy fieldArr \<noteq> Inl UnsupportedSelection"
  by (auto simp: orderBy_def collection_values_def split: sort_acc.splits option.splits sitem.splits)

lemma sorts_step_not_unsupported: "sorts_step sorts it \<noteq> Inl UnsupportedSelection"
  by (cases it) (auto simp: sorts_step_def)

lemma supported_only_filter:
  "\<not> contains_other i sels \<Longrightarrow>
   reduce_err (filter_step pf i (filter_rec d pf i) p) sels acc \<noteq> Inl UnsupportedSelection"
proof (induction d arbitrary: sels p acc)
  case 0
  show ?case
  proof (rule reduce_err_never)
    fix x a assume x: "x \<in> set sels"
    with 0 have "supported_kind x" by (auto intro: contains_other.here)
    then show "filter_step pf i (filter_rec 0 pf i) p a x \<noteq> Inl UnsupportedSelection"
      by (rule filter_step_supported) (simp add: filter_rec_def)
  qed
next
  case (Suc d)
  show ?case
  proof (rule reduce_err_never)
    fix x a assume x: "x \<in> set sels"
    with Suc.prems have sup: "supported_kind x" by (auto intro: contains_other.here)
    with x Suc.prems have sub: "\<not> contains_other i (sub_selections i x)"
      by (auto intro: contains_other.below)
    show "filter_step pf i (filter_rec (Suc d) pf i) p a x \<noteq> Inl UnsupportedSelection"
    proof (rule filter_step_supported [OF sup])
      fix q
      show "filter_rec (Suc d) pf i (callee_nodes i x) q \<noteq> Inl UnsupportedSelection"
        using Suc.IH [OF sub, of q "[]"]
        by (simp add: filter_rec_def getFilterObject_unfold sub_selections_def)
    qed
  qed
qed

lemma supported_only_sort:
  "\<not> contains_other i sels \<Longrightarrow>
   reduce_err (sort_step mode pf i (sort_rec d mode pf i) p) sels acc \<noteq> Inl UnsupportedSelection"
proof (induction d arbitrary: sels p acc)
  case 0
  show ?case
  proof (rule reduce_err_never)
    fix x a assume x: "x \<in> set sels"
    with 0 have "supported_kind x" by (auto intro: contains_other.here)
    then show "sort_step mode pf i (sort_rec 0 mode pf i) p a x \<noteq> Inl UnsupportedSelection"
      by (rule sort_step_supported) (simp add: sort_rec_def)
  qed
next
  case (Suc d)
  show ?case
  proof (rule reduce_err_never)
    fix x a assume x: "x \<in> set sels"
    with Suc.prems have sup: "supported_kind x" by (auto intro: contains_other.here)
    with x Suc.prems have sub: "\<not> contains_other i (sub_selections i x)"
      by (auto intro: contains_other.below)
    show "sort_step mode pf i (sort_rec (Suc d) mode pf i) p a x \<noteq> Inl UnsupportedSelection"
    proof (rule sort_step_supported [OF sup])
      fix q
      have "reduce_err sorts_step xs [] \<noteq> Inl UnsupportedSelection" for xs
        by (rule reduce_err_never) (rule sorts_step_not_unsupported)
      then show "sort_rec (Suc d) mode pf i (callee_nodes i x) q \<noteq> Inl UnsupportedSelection"
        using Suc.IH [OF sub, of q "AccArr []"] orderBy_not_unsupported
        by (auto simp: sort_rec_def getSortObject_unfold sub_selections_def split: sum.splits)
    qed
  qed
qed


lemma map_of_obj_set: "map_of (obj_set kvs k v) = (map_of kvs)(k \<mapsto> v)"
  by (induction kvs) (auto simp: fun_eq_iff)

lemma obj_get_obj_set: "obj_get (obj_set kvs k v) k' = (if k' = k then Some v else obj_get kvs k')"
  by (simp add: obj_get_def map_of_obj_set)

lemma obj_spread_Nil: "obj_spread a [] = a"
  by (simp add: obj_spread_def)

lemma obj_spread_Cons: "obj_spread a ((k, v) # b) = obj_spread (obj_set a k v) b"
  by (simp add: obj_spread_def)

lemma obj_spread_append: "obj_spread (obj_spread a b) c = obj_spread a (b @ c)"
  by (simp add: obj_spread_def)

lemma obj_get_obj_spread_other:
  "k \<notin> fst ` set b \<Longrightarrow> obj_get (obj_spread a b) k = obj_get a k"
proof (induction b arbitrary: a)
  case Nil then show ?case by (simp add: obj_spread_Nil)
next
  case (Cons x b)
  obtain k' v' where x: "x = (k', v')" by (cases x)
  with Cons show ?case by (simp add: obj_spread_Cons obj_get_obj_set)
qed


lemma reduce_err_snoc:
  "reduce_err f (xs @ [x]) acc =
     (case reduce_err f xs acc of Inl e \<Rightarrow> Inl e | Inr a \<Rightarrow> f a x)"
  by (induction xs arbitrary: acc) (auto split: sum.splits)

lemma map_err_length: "map_err f xs = Inr ys \<Longrightarrow> length ys = length xs"
  by (induction xs arbitrary: ys) (auto split: sum.splits)


section \<open>Empty and absent selection contexts\<close>

text \<open>
  Claim C9. Without a selection context (\<open>info\<close> absent), and with a context whose nodes
  select nothing, filter extraction and sort extraction both return the empty mapping;
  neither raises, at any stack depth and under either reading of the array spread.
\<close>

theorem empty_context_yields_empty_mappings:
  "getFilterObject d pf None fn parentName = Inr []
   \<and> getSortObject d mode pf None fn parentName = Inr []
   \<and> (selections_of (to_nodes i fn) = [] \<longrightarrow>
        getFilterObject d pf (Some i) fn parentName = Inr []
        \<and> getSortObject d mode pf (Some i) fn parentName = Inr [])"
  by (cases d)
     (simp_all add: getFilterObject_body_def getSortObject_body_def orderBy_def collection_values_def)

theorem empty_context_yields_empty_mappings_witness:
  "selections_of (to_nodes (request [] [] []) Absent) = []
   \<and> getFilterObject 0 keep_text (Some (request [] [] [])) Absent None = Inr []
   \<and> getSortObject 0 Strict keep_text (Some (request [] [] [])) Absent None = Inr []"
proof -
  have e: "selections_of (to_nodes (request [] [] []) Absent) = []"
    by (simp add: selections_of_def to_nodes_def request_def)
  with empty_context_yields_empty_mappings [of 0 keep_text Absent None Strict "request [] [] []"]
  show ?thesis by simp
qed

section \<open>Unsupported selections\<close>

text \<open>
  When the selection tree holds a node that is not a field, an inline fragment or a
  fragment spread, filter extraction and sort extraction both end in an error, with no
  mapping returned; which error depends on what the traversal meets first. When the tree
  holds only those three kinds, neither of them ends in the error thrown for an
  unsupported selection.
\<close>

lemma unsupported_selection_ends_in_error:
  "(contains_other i (selections_of (to_nodes i fn)) \<longrightarrow>
      isl (getFilterObject d pf (Some i) fn p) \<and> isl (getSortObject d mode pf (Some i) fn p))
   \<and> (\<not> contains_other i (selections_of (to_nodes i fn)) \<longrightarrow>
      getFilterObject d pf (Some i) fn p \<noteq> Inl UnsupportedSelection
      \<and> getSortObject d mode pf (Some i) fn p \<noteq> Inl UnsupportedSelection)"
proof (intro conjI impI)
  assume c: "contains_other i (selections_of (to_nodes i fn))"
  show "isl (getFilterObject d pf (Some i) fn p)"
    using contains_other_filter_raises [OF c] by (simp add: getFilterObject_unfold)
  show "isl (getSortObject d mode pf (Some i) fn p)"
    using contains_other_sort_raises [OF c, of mode pf d p "AccArr []"]
    by (auto simp: getSortObject_unfold split: sum.splits)
next
  assume c: "\<not> contains_other i (selections_of (to_nodes i fn))"
  show "getFilterObject d pf (Some i) fn p \<noteq> Inl UnsupportedSelection"
    using supported_only_filter [OF c] by (simp add: getFilterObject_unfold)
  have "reduce_err sorts_step xs [] \<noteq> Inl UnsupportedSelection" for xs
    by (rule reduce_err_never) (rule sorts_step_not_unsupported)
  then show "getSortObject d mode pf (Some i) fn p \<noteq> Inl UnsupportedSelection"
    using supported_only_sort [OF c, of mode pf d p "AccArr []"] orderBy_not_unsupported
    by (auto simp: getSortObject_unfold split: sum.splits)
qed

text \<open>
  A named node of another kind, met first, ends both extractions in the error thrown for
  an unsupported selection.
\<close>

lemma unsupported_selection_first:
  assumes "selections_of (to_nodes i fn) = OtherNode (Some n) # rest"
  shows "getFilterObject d pf (Some i) fn p = Inl UnsupportedSelection"
    and "getSortObject d mode pf (Some i) fn p = Inl UnsupportedSelection"
  using assms
  by (simp_all add: getFilterObject_unfold getSortObject_unfold filter_step_def sort_step_def)

text \<open>
  Claim C8 says that a tree with a node of another kind makes both extractions raise an
  error, and that a tree of fields, inline fragments and fragment spreads only raises no
  such error. For a node of another kind that has a name both extractions throw the error
  for an unsupported selection; for one without a name they raise a TypeError. But the tree
  \<open>... on User { age }\<close>, which holds an inline fragment and a field only, makes both
  extractions raise a TypeError: the prefix is built from \<open>name.value\<close> before the kind
  is looked at, and an inline fragment has no \<open>name\<close>.
\<close>

theorem inline_fragment_raises:
  "getFilterObject 2 keep_text
     (Some (request [InlineFragment [Field ''age'' [] None]] [] [])) Absent None = Inl TypeError
   \<and> getSortObject 2 Strict keep_text
     (Some (request [InlineFragment [Field ''age'' [] None]] [] [])) Absent None = Inl TypeError
   \<and> getSortObject 2 Loose keep_text
     (Some (request [InlineFragment [Field ''age'' [] None]] [] [])) Absent None = Inl TypeError
   \<and> getFilterObject 2 keep_text
     (Some (request [Field ''age'' [] None] [] [])) Absent None = Inr []
   \<and> getSortObject 2 Strict keep_text
     (Some (request [Field ''age'' [] None] [] [])) Absent None = Inr []
   \<and> getFilterObject 2 keep_text
     (Some (request [OtherNode (Some ''x'')] [] [])) Absent None = Inl UnsupportedSelection
   \<and> getSortObject 2 Strict keep_text
     (Some (request [OtherNode (Some ''x'')] [] [])) Absent None = Inl UnsupportedSelection
   \<and> getSortObject 2 Loose keep_text
     (Some (request [OtherNode (Some ''x'')] [] [])) Absent None = Inl UnsupportedSelection
   \<and> getFilterObject 2 keep_text
     (Some (request [OtherNode None] [] [])) Absent None = Inl TypeError
   \<and> getSortObject 2 Strict keep_text
     (Some (request [OtherNode None] [] [])) Absent None = Inl TypeError"
  by code_simp

section \<open>Literals\<close>

text \<open>
  At the top level a literal is parsed by its kind: a variable to its bound value, an
  integer literal with \<open>parseInt\<close>, a float literal with \<open>parseFloat\<close>, a string to
  itself, a boolean to the boolean, null to null, an enum name to its text; an object
  literal, which has no \<open>value\<close>, to undefined.
\<close>

lemma parseValue_kinds:
  "parseValue pf (ArgInfo i) (ArgNode (Variable n))
     = Inr (case obj_get (variableValues i) n of None \<Rightarrow> JUndefined | Some v \<Rightarrow> v)"
  "parseValue pf (ArgInfo i) (ArgNode (IntValue s))
     = (case parseInt_str s of
          NotANumber \<Rightarrow> Inr JNaN | Parsed k \<Rightarrow> Inr (JNum k) | Unsafe \<Rightarrow> Inl NotModelled)"
  "parseValue pf (ArgInfo i) (ArgNode (FloatValue s)) = Inr (pf s)"
  "parseValue pf (ArgInfo i) (ArgNode (StringValue s)) = Inr (JStr s)"
  "parseValue pf (ArgInfo i) (ArgNode (BooleanValue b)) = Inr (JBool b)"
  "parseValue pf (ArgInfo i) (ArgNode NullValue) = Inr JNull"
  "parseValue pf (ArgInfo i) (ArgNode (EnumValue s)) = Inr (JStr s)"
  "parseValue pf (ArgInfo i) (ArgNode (ObjectValue fs)) = Inr JUndefined"
  by (simp_all add: parseValue.simps parseInt_def)


text \<open>
  Claim C6 says that a list literal is parsed to the list of its parsed elements. The
  elements are parsed by \<open>values.map(parseValue)\<close>, which binds the element to the \<open>info\<close>
  parameter and the index to the destructured one: every element comes out undefined.
  Here the list literal \<open>[1, 2]\<close>.
\<close>

theorem parseValue_list_elements_undefined:
  "parseValue keep_text (ArgInfo (request [] [] []))
     (ArgNode (ListValue [IntValue ''1'', IntValue ''2''])) = Inr (JArr [JUndefined, JUndefined])"
  by (simp add: parseValue_list)

section \<open>Filter clauses\<close>

text \<open>
  What the compiler does for the field selected last, whenever it returns: one clause per
  comparison argument; the single clause itself, or the clauses in a list under the key
  made of \<open>$\<close> and the \<open>value\<close> of the \<open>op\<close> literal (\<open>and\<close> without \<open>op\<close>), at
  the path built from the prefix and the field's name. The two requests of the spec,
  \<open>friends(eq: "x", gt: "a", op: or)\<close> and \<open>age(gt: 5)\<close>, compile as given there.
\<close>

lemma filters_of_length:
  "filters_of pf i args = Inr fs \<Longrightarrow> length fs = length (filter (\<lambda>it. arg_name it \<in> set names) args)"
  unfolding filters_of_def by (rule map_err_length)

lemma op_of_text: "\<exists>opText. js_toString (op_of args) = Some opText"
proof (cases "find (\<lambda>it. arg_name it = ''op'') args")
  case None
  then show ?thesis by (simp add: op_of_def)
next
  case (Some a)
  then show ?thesis by (cases "arg_value a") (simp_all add: op_of_def)
qed

lemma filter_last_field:
  assumes sels: "selections_of (to_nodes i fn) = before @ [Field n args s]"
    and res: "getFilterObject d pf (Some i) fn p = Inr obj"
    and fs: "filters_of pf i args = Inr fs" "fs \<noteq> []"
  shows "\<exists>opText. js_toString (op_of args) = Some opText \<and>
           obj_get obj (prefix_of p n) =
             Some (if length fs > 1 then JObj [(''$'' @ opText, JArr fs)] else fs ! 0)"
proof -
  obtain opText where op: "js_toString (op_of args) = Some opText"
    using op_of_text by blast
  from res sels obtain acc where
    step: "filter_step pf i (filter_rec d pf i) p acc (Field n args s) = Inr obj"
    by (auto simp: getFilterObject_unfold reduce_err_snoc split: sum.splits)
  from step fs(1) obtain sub config where
    "filter_config (prefix_of p n) (op_of args) fs = Inr config"
    "obj = obj_spread (obj_spread acc sub) config"
    by (auto simp: filter_step_def Let_def split: sum.splits)
  with fs(2) op have "obj_get obj (prefix_of p n) =
             Some (if length fs > 1 then JObj [(''$'' @ opText, JArr fs)] else fs ! 0)"
    by (cases fs) (auto simp: filter_config_def obj_spread_Cons obj_spread_Nil obj_get_obj_set
                     split: if_splits)
  with op show ?thesis by blast
qed

lemma filter_claim_examples:
  "getFilterObject 2 keep_text
     (Some (request [Field ''friends'' [Argument ''eq'' (StringValue ''x''),
                       Argument ''gt'' (StringValue ''a''), Argument ''op'' (EnumValue ''or'')] None]
              [] [])) Absent None
   = Inr [(''friends'', JObj [(''$or'',
             JArr [JObj [(''$eq'', JStr ''x'')], JObj [(''$gt'', JStr ''a'')]])])]
   \<and> getFilterObject 2 keep_text
     (Some (request [Field ''age'' [Argument ''gt'' (IntValue ''5'')] None] [] [])) Absent None
   = Inr [(''age'', JObj [(''$gt'', JNum 5)])]"
  by code_simp


text \<open>
  Claim C1 says that every selected field with comparison arguments gets its clauses at
  its dotted path, several clauses being wrapped under the field's \<open>op\<close>. Three requests
  where the compiler does otherwise: (1) \<open>friends(eq: "x", gt: "a", op: $o)\<close> with the
  variable \<open>o\<close> bound to \<open>or\<close> is wrapped under \<open>$undefined\<close>, since \<open>op\<close> is read
  from the literal node and a variable node has no \<open>value\<close>; (2) \<open>... on User { age(gt: 5) }\<close>
  raises a TypeError, since the prefix is built from the \<open>name\<close> that an inline fragment
  lacks; (3) \<open>...F\<close> with \<open>fragment F { age(gt: 5) }\<close> files the clause under \<open>F.age\<close>.
\<close>

theorem filter_op_variable_and_fragments:
  "getFilterObject 2 keep_text
     (Some (request [Field ''friends'' [Argument ''eq'' (StringValue ''x''),
                       Argument ''gt'' (StringValue ''a''), Argument ''op'' (Variable ''o'')] None]
              [] [(''o'', JStr ''or'')])) Absent None
   = Inr [(''friends'', JObj [(''$undefined'',
             JArr [JObj [(''$eq'', JStr ''x'')], JObj [(''$gt'', JStr ''a'')]])])]
   \<and> getFilterObject 2 keep_text
     (Some (request [InlineFragment [Field ''age'' [Argument ''gt'' (IntValue ''5'')] None]] [] []))
     Absent None
   = Inl TypeError
   \<and> getFilterObject 2 keep_text
     (Some (request [FragmentSpread ''F'']
              [(''F'', FragmentDefinition ''F'' [Field ''age'' [Argument ''gt'' (IntValue ''5'')] None])]
              [])) Absent None
   = Inr [(''F.age'', JObj [(''$gt'', JNum 5)])]"
  by code_simp

section \<open>Sort extraction\<close>

text \<open>
  Where the array spread goes through \<open>Array.from\<close>, sibling fields that all carry
  \<open>sort\<close> are collected and ordered by priority, then path; a direction arrives as \<open>-1\<close>
  when it is bound through a variable, whose value is the enum's internal one.
\<close>

lemma sort_example_with_variable_direction:
  "getSortObject 2 Loose keep_text
     (Some (request [Field ''a'' [Argument ''sort'' (Variable ''d''),
                                 Argument ''sortOrder'' (IntValue ''2'')] None,
                     Field ''b'' [Argument ''sort'' (EnumValue ''asc''),
                                 Argument ''sortOrder'' (IntValue ''1'')] None,
                     Field ''c'' [Argument ''sort'' (EnumValue ''asc'')] None] [] [(''d'', JNum (- 1))]))
     Absent None = Inr [(''b'', 1), (''a'', - 1), (''c'', 1)]"
  by code_simp

text \<open>
  Claim C2 gives \<open>{b: 1, a: -1, c: 1}\<close> for the selections \<open>a(sort: desc, sortOrder: 2)\<close>,
  \<open>b(sort: asc, sortOrder: 1)\<close>, \<open>c(sort: asc)\<close>. In ECMAScript the first of these fields
  already raises a TypeError: the object returned by the nested call is spread into an
  array literal. Where that spread is read through \<open>Array.from\<close> the three candidates are
  collected and ordered, but \<open>a\<close> gets direction 1: the enum name \<open>desc\<close> is handed to
  \<open>parseInt\<close>, which yields NaN, and \<open>|| 1\<close> replaces it.
\<close>

theorem sort_example_direction_lost:
  "getSortObject 2 Strict keep_text
     (Some (request [Field ''a'' [Argument ''sort'' (EnumValue ''desc''),
                                 Argument ''sortOrder'' (IntValue ''2'')] None,
                     Field ''b'' [Argument ''sort'' (EnumValue ''asc''),
                                 Argument ''sortOrder'' (IntValue ''1'')] None,
                     Field ''c'' [Argument ''sort'' (EnumValue ''asc'')] None] [] []))
     Absent None = Inl TypeError
   \<and> getSortObject 2 Loose keep_text
     (Some (request [Field ''a'' [Argument ''sort'' (EnumValue ''desc''),
                                 Argument ''sortOrder'' (IntValue ''2'')] None,
                     Field ''b'' [Argument ''sort'' (EnumValue ''asc''),
                                 Argument ''sortOrder'' (IntValue ''1'')] None,
                     Field ''c'' [Argument ''sort'' (EnumValue ''asc'')] None] [] []))
     Absent None = Inr [(''b'', 1), (''a'', 1), (''c'', 1)]"
  by code_simp

text \<open>
  Claim C7 says that a nested field is recorded under the dotted path of its ancestors,
  whether or not these carry \<open>sort\<close>. For \<open>profile { age(sort: asc) }\<close> no candidate
  \<open>profile.age\<close> is recorded: the call for a field without \<open>sort\<close> passes no prefix and
  returns an object, whose numbers the final fold skips (or, in ECMAScript, the nested
  field has raised before). Below a field that carries \<open>sort\<close> the nested result is an
  object spread into an array, and is lost as well.
\<close>

theorem sort_nested_path_lost:
  "getSortObject 3 Strict keep_text
     (Some (request [Field ''profile'' [] (Some [Field ''age'' [Argument ''sort'' (EnumValue ''asc'')] None])]
              [] [])) Absent None = Inl TypeError
   \<and> getSortObject 3 Loose keep_text
     (Some (request [Field ''profile'' [] (Some [Field ''age'' [Argument ''sort'' (EnumValue ''asc'')] None])]
              [] [])) Absent None = Inr []
   \<and> getSortObject 3 Loose keep_text
     (Some (request [Field ''profile'' [Argument ''sort'' (EnumValue ''asc'')]
                       (Some [Field ''age'' [Argument ''sort'' (EnumValue ''asc'')] None])]
              [] [])) Absent None = Inr [(''profile'', 1)]"
  by code_simp

section \<open>Arguments derived for a field\<close>

text \<open>
  Claim C3 gives a list-of-scalar field the eight comparison arguments, typed to the
  element. The field \<open>nums: [Float]\<close> gets \<open>all\<close> and \<open>size\<close> and nothing else: the
  comparison arguments are derived for scalar and enum types only.
\<close>

theorem list_of_scalar_has_no_comparison:
  "getFieldArguments [] (''nums'', GList (GScalar ''Float'')) []
     = Inr ([(''all'', GList (GScalar ''Float'')), (''size'', GScalar ''Int'')], [])"
  by code_simp

text \<open>
  The mirror of an object type whose fields are scalars, not yet in the memo: an input
  object named \<open>inputFor\<close> and the type's name, with the same fields.
\<close>

lemma inputFields_scalars:
  "\<forall>(k, t) \<in> set fs. \<exists>s. t = GScalar s \<Longrightarrow>
   inputFields memo fs inputs = Inr (obj_spread inputs fs, memo)"
proof (induction fs arbitrary: inputs)
  case Nil
  then show ?case by (simp add: obj_spread_Nil)
next
  case (Cons f fs)
  obtain k t where f: "f = (k, t)" by (cases f)
  with Cons.prems obtain s where t: "t = GScalar s" by auto
  from Cons.prems have "\<forall>(k, t) \<in> set fs. \<exists>s. t = GScalar s" by simp
  from Cons.IH [OF this] f t show ?case by (simp add: obj_spread_Cons)
qed

lemma mirror_of_scalar_object:
  assumes "\<forall>(k, t) \<in> set fs. \<exists>s. t = GScalar s" and "map_of memo n = None"
  shows "createInputObject memo (GObject n fs)
           = Inr (GInputObject (''inputFor'' @ n) (obj_spread [] fs),
                  obj_set memo n (GInputObject (''inputFor'' @ n) (obj_spread [] fs)))"
  using assms by (simp add: inputFields_scalars obj_get_def)

text \<open>
  Claim C3, amended. For a field not named \<open>id\<close> or \<open>_id\<close> whose type \<open>t\<close>, the non-null
  wrapper removed, is a scalar or an enum, the derived arguments are exactly \<open>eq\<close>, \<open>gt\<close>,
  \<open>gte\<close>, \<open>lt\<close>, \<open>lte\<close>, \<open>ne\<close> of type \<open>t\<close>, \<open>in\<close> and \<open>nin\<close> of type list of \<open>t\<close>,
  \<open>op\<close> of the enum \<open>op\<close>, \<open>sort\<close> of the enum \<open>sort\<close> and \<open>sortOrder\<close> of the scalar
  \<open>Int\<close>, added to the arguments given (in this order when none is given); the memo is
  unchanged. For a list field whose element type \<open>createInputObject\<close> mirrors, \<open>all\<close> is a
  list of that mirror and \<open>size\<close> is of the scalar \<open>Int\<close>; none of the eleven arguments
  above is added, and the memo is the one the mirror left. For a list of a scalar the
  mirror is the scalar itself.
\<close>

theorem field_arguments_derived:
  assumes "fst field \<noteq> ''_id''" and "fst field \<noteq> ''id''"
  shows "(unwrapped (snd field) = t \<and> (t = GScalar s \<or> t = GEnum s) \<longrightarrow>
           (\<exists>args'. getFieldArguments memo field args = Inr (args', memo)
              \<and> map_of args' =
                  (map_of args)(''eq'' \<mapsto> t, ''gt'' \<mapsto> t, ''gte'' \<mapsto> t, ''lt'' \<mapsto> t,
                    ''lte'' \<mapsto> t, ''ne'' \<mapsto> t, ''in'' \<mapsto> GList t, ''nin'' \<mapsto> GList t,
                    ''op'' \<mapsto> GEnum ''op'', ''sort'' \<mapsto> GEnum ''sort'',
                    ''sortOrder'' \<mapsto> GScalar ''Int'')
              \<and> (args = [] \<longrightarrow>
                    args' = [(''eq'', t), (''gt'', t), (''gte'', t), (''lt'', t), (''lte'', t),
                             (''ne'', t), (''in'', GList t), (''nin'', GList t),
                             (''op'', GEnum ''op''), (''sort'', GEnum ''sort''),
                             (''sortOrder'', GScalar ''Int'')])))
       \<and> (unwrapped (snd field) = GList ofType \<and> createInputObject memo ofType = Inr (m, memo') \<longrightarrow>
           (\<exists>args'. getFieldArguments memo field args = Inr (args', memo')
              \<and> map_of args' ''all'' = Some (GList m)
              \<and> map_of args' ''size'' = Some (GScalar ''Int'')
              \<and> (\<forall>k \<in> {''eq'', ''gt'', ''gte'', ''lt'', ''lte'', ''ne'', ''in'', ''nin'',
                         ''op'', ''sort'', ''sortOrder''}.
                    map_of args' k = map_of args k)))
       \<and> (unwrapped (snd field) = GList (GScalar s) \<longrightarrow>
           (\<exists>args'. getFieldArguments memo field args = Inr (args', memo)
              \<and> map_of args' ''all'' = Some (GList (GScalar s))
              \<and> map_of args' ''size'' = Some (GScalar ''Int'')))"
proof (intro conjI impI)
  assume a: "unwrapped (snd field) = t \<and> (t = GScalar s \<or> t = GEnum s)"
  let ?derived = "[(''eq'', t), (''gt'', t), (''gte'', t), (''lt'', t), (''lte'', t),
                   (''ne'', t), (''in'', GList t), (''nin'', GList t),
                   (''op'', GEnum ''op''), (''sort'', GEnum ''sort''),
                   (''sortOrder'', GScalar ''Int'')]"
  from a assms have r: "getFieldArguments memo field args = Inr (obj_spread args ?derived, memo)"
    by (auto simp: getFieldArguments_def is_scalar_or_enum_def obj_spread_append
          GraphQLLogical_def GraphQLSort_def GraphQLInt_def)
  have m: "map_of (obj_spread args ?derived) =
             (map_of args)(''eq'' \<mapsto> t, ''gt'' \<mapsto> t, ''gte'' \<mapsto> t, ''lt'' \<mapsto> t,
               ''lte'' \<mapsto> t, ''ne'' \<mapsto> t, ''in'' \<mapsto> GList t, ''nin'' \<mapsto> GList t,
               ''op'' \<mapsto> GEnum ''op'', ''sort'' \<mapsto> GEnum ''sort'',
               ''sortOrder'' \<mapsto> GScalar ''Int'')"
    by (simp add: obj_spread_Cons obj_spread_Nil map_of_obj_set)
  have e: "obj_spread [] ?derived = ?derived"
    by (simp add: obj_spread_Cons obj_spread_Nil)
  from r m e show "\<exists>args'. getFieldArguments memo field args = Inr (args', memo)
      \<and> map_of args' =
          (map_of args)(''eq'' \<mapsto> t, ''gt'' \<mapsto> t, ''gte'' \<mapsto> t, ''lt'' \<mapsto> t,
            ''lte'' \<mapsto> t, ''ne'' \<mapsto> t, ''in'' \<mapsto> GList t, ''nin'' \<mapsto> GList t,
            ''op'' \<mapsto> GEnum ''op'', ''sort'' \<mapsto> GEnum ''sort'',
            ''sortOrder'' \<mapsto> GScalar ''Int'')
      \<and> (args = [] \<longrightarrow> args' = ?derived)"
    by auto
next
  assume a: "unwrapped (snd field) = GList ofType \<and> createInputObject memo ofType = Inr (m, memo')"
  let ?args' = "obj_spread args [(''all'', GList m), (''size'', GScalar ''Int'')]"
  from a assms have "getFieldArguments memo field args = Inr (?args', memo')"
    by (simp add: getFieldArguments_def is_scalar_or_enum_def GraphQLInt_def)
  moreover have "map_of ?args' ''all'' = Some (GList m)"
    by (simp add: obj_spread_Cons obj_spread_Nil map_of_obj_set)
  moreover have "map_of ?args' ''size'' = Some (GScalar ''Int'')"
    by (simp add: obj_spread_Cons obj_spread_Nil map_of_obj_set)
  moreover have "\<forall>k \<in> {''eq'', ''gt'', ''gte'', ''lt'', ''lte'', ''ne'', ''in'', ''nin'',
                       ''op'', ''sort'', ''sortOrder''}. map_of ?args' k = map_of args k"
    by (simp add: obj_spread_Cons obj_spread_Nil map_of_obj_set)
  ultimately show "\<exists>args'. getFieldArguments memo field args = Inr (args', memo')
              \<and> map_of args' ''all'' = Some (GList m)
              \<and> map_of args' ''size'' = Some (GScalar ''Int'')
              \<and> (\<forall>k \<in> {''eq'', ''gt'', ''gte'', ''lt'', ''lte'', ''ne'', ''in'', ''nin'',
                         ''op'', ''sort'', ''sortOrder''}.
                    map_of args' k = map_of args k)" by blast
next
  assume a: "unwrapped (snd field) = GList (GScalar s)"
  let ?args' = "obj_spread args [(''all'', GList (GScalar s)), (''size'', GScalar ''Int'')]"
  from a assms have "getFieldArguments memo field args = Inr (?args', memo)"
    by (simp add: getFieldArguments_def is_scalar_or_enum_def GraphQLInt_def)
  moreover have "map_of ?args' ''all'' = Some (GList (GScalar s))"
    by (simp add: obj_spread_Cons obj_spread_Nil map_of_obj_set)
  moreover have "map_of ?args' ''size'' = Some (GScalar ''Int'')"
    by (simp add: obj_spread_Cons obj_spread_Nil map_of_obj_set)
  ultimately show "\<exists>args'. getFieldArguments memo field args = Inr (args', memo)
              \<and> map_of args' ''all'' = Some (GList (GScalar s))
              \<and> map_of args' ''size'' = Some (GScalar ''Int'')" by blast
qed

theorem field_arguments_derived_witness:
  "getFieldArguments [] (''age'', GNonNull (GScalar ''Float'')) []
     = Inr ([(''eq'', GScalar ''Float''), (''gt'', GScalar ''Float''), (''gte'', GScalar ''Float''),
             (''lt'', GScalar ''Float''), (''lte'', GScalar ''Float''), (''ne'', GScalar ''Float''),
             (''in'', GList (GScalar ''Float'')), (''nin'', GList (GScalar ''Float'')),
             (''op'', GEnum ''op''), (''sort'', GEnum ''sort''), (''sortOrder'', GScalar ''Int'')],
            [])
   \<and> createInputObject [] (GObject ''UserItems'' [(''n'', GScalar ''Float'')])
       = Inr (GInputObject ''inputForUserItems'' [(''n'', GScalar ''Float'')],
              [(''UserItems'', GInputObject ''inputForUserItems'' [(''n'', GScalar ''Float'')])])
   \<and> (\<exists>args'. getFieldArguments []
                  (''items'', GList (GObject ''UserItems'' [(''n'', GScalar ''Float'')])) []
                = Inr (args', [(''UserItems'',
                         GInputObject ''inputForUserItems'' [(''n'', GScalar ''Float'')])])
          \<and> map_of args' ''all''
              = Some (GList (GInputObject ''inputForUserItems'' [(''n'', GScalar ''Float'')]))
          \<and> map_of args' ''size'' = Some (GScalar ''Int'')
          \<and> map_of args' ''eq'' = None)
   \<and> (\<exists>args'. getFieldArguments [] (''nums'', GList (GScalar ''Float'')) [] = Inr (args', [])
          \<and> map_of args' ''all'' = Some (GList (GScalar ''Float''))
          \<and> map_of args' ''size'' = Some (GScalar ''Int''))"
proof -
  let ?el = "GObject ''UserItems'' [(''n'', GScalar ''Float'')]"
  let ?m = "GInputObject ''inputForUserItems'' [(''n'', GScalar ''Float'')]"
  have c: "createInputObject [] ?el = Inr (?m, [(''UserItems'', ?m)])"
    by (simp add: obj_get_def)
  have 1: "getFieldArguments [] (''age'', GNonNull (GScalar ''Float'')) []
     = Inr ([(''eq'', GScalar ''Float''), (''gt'', GScalar ''Float''), (''gte'', GScalar ''Float''),
             (''lt'', GScalar ''Float''), (''lte'', GScalar ''Float''), (''ne'', GScalar ''Float''),
             (''in'', GList (GScalar ''Float'')), (''nin'', GList (GScalar ''Float'')),
             (''op'', GEnum ''op''), (''sort'', GEnum ''sort''), (''sortOrder'', GScalar ''Int'')],
            [])"
    using field_arguments_derived
         [where field = "(''age'', GNonNull (GScalar ''Float''))" and memo = "[]" and args = "[]"
            and t = "GScalar ''Float''" and s = "''Float''"]
    by auto
  from c field_arguments_derived
         [where field = "(''items'', GList ?el)" and memo = "[]" and args = "[]"
            and ofType = ?el and m = ?m and memo' = "[(''UserItems'', ?m)]"]
  obtain args' where a: "getFieldArguments [] (''items'', GList ?el) [] = Inr (args', [(''UserItems'', ?m)])"
      "map_of args' ''all'' = Some (GList ?m)" "map_of args' ''size'' = Some (GScalar ''Int'')"
      "map_of args' ''eq'' = None"
    by auto
  have p: "fst (''nums'', GList (GScalar ''Float'')) \<noteq> ''_id''"
           "fst (''nums'', GList (GScalar ''Float'')) \<noteq> ''id''"
    by simp_all
  have u: "unwrapped (snd (''nums'', GList (GScalar ''Float''))) = GList (GScalar ''Float'')"
    by simp
  from field_arguments_derived
         [where memo = "[]" and args = "[]" and s = "''Float''", OF p,
          THEN conjunct2, THEN conjunct2, rule_format, OF u]
  obtain args'' where b: "getFieldArguments [] (''nums'', GList (GScalar ''Float'')) [] = Inr (args'', [])"
      "map_of args'' ''all'' = Some (GList (GScalar ''Float''))"
      "map_of args'' ''size'' = Some (GScalar ''Int'')"
    by blast
  from 1 c a b show ?thesis by blast
qed

section \<open>Hooks around a resolver\<close>

lemma compose_traced_chain:
  "compose (traced_chain hs) args w = (Inr (chain_result hs args), w @ chain_calls hs args)"
proof (induction hs arbitrary: w)
  case Nil
  then show ?case by (simp add: traced_chain_def chain_result_def chain_calls_def)
next
  case (Cons h hs)
  obtain n f where h: "h = (n, f)" by (cases h)
  show ?case
  proof (cases hs)
    case Nil
    with h show ?thesis
      by (simp add: traced_chain_def chain_result_def chain_calls_def traced_def)
  next
    case (Cons h' hs')
    have "rev hs \<noteq> []" using Cons by simp
    then have r: "chain_result ((n, f) # hs) args = chain_result hs args"
      by (cases "rev hs") (simp_all add: chain_result_def)
    have "compose (traced_chain (h # hs)) args w = compose (traced_chain hs) args (w @ [Call n args])"
      using h Cons by (simp add: traced_chain_def traced_def)
    also have "\<dots> = (Inr (chain_result hs args), (w @ [Call n args]) @ chain_calls hs args)"
      by (rule Cons.IH)
    finally show ?thesis using h r by (simp add: chain_calls_def)
  qed
qed

text \<open>
  Claim C5. With any pre and post hook lists (either may be empty), observed through the
  calls they receive: every pre hook is called, in order, with the original arguments,
  before the resolver; then the resolver; then every post hook, in order, with the
  resolver's result followed by the original arguments. The value returned is the result
  of the last post hook when that is truthy, and the resolver's own result otherwise
  (also when there is no post hook).
\<close>

theorem addHooks_order_and_replacement:
  "addHooks (traced ''resolver'' g) (traced_chain pre) (traced_chain post) args w =
     (Inr (if truthy (chain_result post (g args # args))
           then chain_result post (g args # args) else g args),
      w @ chain_calls pre args @ [Call ''resolver'' args] @ chain_calls post (g args # args))"
  by (simp add: addHooks_def compose_traced_chain traced_def)

text \<open>
  Claim C10. When the pre chain has returned and the resolver throws, the composed
  resolver throws the same value and the world is left as the resolver left it: no post
  hook has run, whatever the post list is.
\<close>

theorem addHooks_resolver_failure:
  assumes "compose pre args w = (Inr x, w1)" and "resolver args w1 = (Inl e, w2)"
  shows "addHooks resolver pre post args w = (Inl e, w2)"
  using assms by (simp add: addHooks_def)

theorem addHooks_resolver_failure_witness:
  "compose (traced_chain [(''before'', \<lambda>_. JNull)]) [JNum 1] [] = (Inr JNull, [Call ''before'' [JNum 1]])
   \<and> failing ''resolver'' (JStr ''boom'') [JNum 1] [Call ''before'' [JNum 1]]
       = (Inl (JStr ''boom''), [Call ''before'' [JNum 1], Call ''resolver'' [JNum 1]])
   \<and> addHooks (failing ''resolver'' (JStr ''boom'')) (traced_chain [(''before'', \<lambda>_. JNull)])
        (traced_chain [(''after'', \<lambda>_. JStr ''replacement'')]) [JNum 1] []
       = (Inl (JStr ''boom''), [Call ''before'' [JNum 1], Call ''resolver'' [JNum 1]])"
proof -
  have a: "compose (traced_chain [(''before'', \<lambda>_. JNull)]) [JNum 1] []
             = (Inr JNull, [Call ''before'' [JNum 1]])"
    by (simp add: traced_chain_def traced_def)
  have b: "failing ''resolver'' (JStr ''boom'') [JNum 1] [Call ''before'' [JNum 1]]
             = (Inl (JStr ''boom''), [Call ''before'' [JNum 1], Call ''resolver'' [JNum 1]])"
    by (simp add: failing_def)
  from a b
    addHooks_resolver_failure [where resolver = "failing ''resolver'' (JStr ''boom'')"
      and post = "traced_chain [(''after'', \<lambda>_. JStr ''replacement'')]", OF a b]
  show ?thesis by simp
qed

section \<open>Types served from the cache\<close>

text \<open>
  The first half of claim C4 holds: a cached type whose first interface is not the
  context's node interface is replaced by a new object that carries this interface, in the
  result and in the registry under the model's name.
\<close>

lemma cached_mismatch_rebuilt:
  assumes "gt_cache s = Some cache" and "obj_get cache (mkey m) = Some cached"
    and "interfaces cached = Some ifs"
    and "ifs = [] \<or> hd ifs \<noteq> nodeInterface (gt_ctx s)"
  shows "\<exists>s' t. getTypes_step s m = Inr s'
           \<and> obj_get (gt_types s') (mname m) = Some t
           \<and> obj_get (registry (gt_ctx s')) (mname m) = Some t
           \<and> interfaces t = Some [nodeInterface (gt_ctx s)]
           \<and> oid t = (ctx_id (gt_ctx s), next_oid (gt_ctx s))
           \<and> tname t \<in> set (reResolveTypes s')"
  using assms
  by (cases ifs)
     (auto simp: getTypes_step_def new_type_def addType_def obj_get_obj_set nodeInterface_def)

text \<open>
  Claim C4 says that for a type served from the cache with a matching interface the
  reference resolution is not run again. Two calls of \<open>getTypes\<close> on one context, with the
  \<open>User\<close> model and a cache: the second call is served the same object from the cache, its
  interface matches, and the pass runs for \<open>User\<close> again, since only the names of rebuilt
  types are skipped; the connection of \<open>friends\<close> is rebuilt around the type found under
  the name of the connection of the first pass, which is none. In \<open>type.js\<close> the pass
  skips the names the cache holds; with a model cached under the key \<open>user\<close> and named
  \<open>User\<close> the second call runs the pass for \<open>User\<close> as well.
\<close>

theorem getTypes_resolves_cached_type_again:
  "map_sum id res_types (again (getTypes (createTypeContext 1) (Some []) [user]) [user])
     = map_sum id res_types (getTypes (createTypeContext 1) (Some []) [user])
   \<and> map_sum id res_types (getTypes (createTypeContext 1) (Some []) [user])
     = Inr [(''User'', \<lparr>oid = (1, 1), tname = ''User'', interfaces = Some [1]\<rparr>)]
   \<and> nodeInterface (createTypeContext 1) = 1
   \<and> map_sum id res_resolved (again (getTypes (createTypeContext 1) (Some []) [user]) [user])
     = Inr [''User'']
   \<and> map_sum id (\<lambda>r. obj_get (resolveReference (res_ctx r)) ''User'')
        (again (getTypes (createTypeContext 1) (Some []) [user]) [user])
     = Inr (Some [(''mother'',
                   Slot (TypeObject \<lparr>oid = (1, 1), tname = ''User'', interfaces = Some [1]\<rparr>) False),
                  (''friends'', Slot (ConnectionType ''UserFriends'' None) True)])
   \<and> map_sum id res_resolved
        (again_type_js (getTypes_type_js (createTypeContext 1) (Some []) [user\<lparr>mkey := ''user''\<rparr>])
           [user\<lparr>mkey := ''user''\<rparr>])
     = Inr [''User'']"
  by code_simp

end
